theory Spec2Isabelle
  imports Complex_Main "HOL-Library.AList"
begin

section \<open>Python values\<close>

text \<open>
  A Python string is the list of its Unicode code points. \<open>ascii\<close> embeds an Isabelle
  string literal, character by character; code points beyond ASCII are written as
  numbers.
\<close>

type_synonym pystr = "nat list"

definition ascii :: "string \<Rightarrow> pystr" where
  "ascii s = map of_char s"

datatype py_error =
  IndexError | KeyError | TypeError | ValueError | AttributeError | OverflowError | OtherError

text \<open>
  The values that travel through requests, response dictionaries and JSON bodies. The
  program never looks inside a number, so a float is carried as the rational it denotes.
\<close>

datatype pyval =
    PNone
  | PBool bool
  | PInt int
  | PFloat rat
  | PStr pystr
  | PList "pyval list"
  | PDict "(pystr \<times> pyval) list"

subsection \<open>The interpreter's tables\<close>

text \<open>
  What Python does with code points beyond ASCII depends on the Unicode database of the
  running interpreter, which is not part of the program. It is a parameter of the model:
  \<^item> \<open>uc_lower before c after\<close> is what \<^verbatim>\<open>str.lower()\<close> puts for the non-ASCII code point
    \<open>c\<close> standing between \<open>before\<close> and \<open>after\<close> (one code point or several; the context
    matters for the Greek final sigma);
  \<^item> \<open>uc_isspace c\<close> and \<open>uc_isalnum c\<close> are \<^verbatim>\<open>str.isspace()\<close> and \<^verbatim>\<open>str.isalnum()\<close> of a
    non-ASCII code point;
  \<^item> \<open>uc_decimal c\<close> is the value of a non-ASCII decimal digit;
  \<^item> \<open>max_str_digits\<close> is the limit of \<^verbatim>\<open>int()\<close> on the number of digits of a string
    (4300 by default, 0 for no limit).
  On ASCII code points Python's behaviour is fixed, and the model fixes it.
\<close>

record runtime =
  uc_lower :: "pystr \<Rightarrow> nat \<Rightarrow> pystr \<Rightarrow> pystr"
  uc_isspace :: "nat \<Rightarrow> bool"
  uc_isalnum :: "nat \<Rightarrow> bool"
  uc_decimal :: "nat \<Rightarrow> nat option"
  max_str_digits :: nat

text \<open>
  A runtime whose tables know nothing beyond ASCII. The worked examples below use ASCII
  text only, for which the tables are never consulted.
\<close>

definition plain_runtime :: runtime where
  "plain_runtime =
     \<lparr>uc_lower = (\<lambda>before c after. [c]), uc_isspace = (\<lambda>c. False),
      uc_isalnum = (\<lambda>c. False), uc_decimal = (\<lambda>c. None), max_str_digits = 4300\<rparr>"

subsection \<open>Dictionaries\<close>

text \<open>
  A Python \<^verbatim>\<open>dict\<close> keeps its keys in insertion order, and the code sorts and iterates
  dictionaries, so a dictionary is an association list with distinct keys.
  \<^verbatim>\<open>d[k] = v\<close> overwrites the value of a present key in place and appends an absent
  one at the end, which is \<^const>\<open>AList.update\<close>; \<^verbatim>\<open>del d[k]\<close> of a present key is
  \<^const>\<open>AList.delete\<close>; \<^verbatim>\<open>k in d\<close> is \<open>dict_has\<close> and \<^verbatim>\<open>d.get(k, default)\<close> is
  \<open>dict_get\<close>.
\<close>

type_synonym ('k, 'v) pydict = "('k \<times> 'v) list"

definition dict_has :: "('k, 'v) pydict \<Rightarrow> 'k \<Rightarrow> bool" where
  "dict_has d k \<longleftrightarrow> map_of d k \<noteq> None"

definition dict_get :: "('k, 'v) pydict \<Rightarrow> 'k \<Rightarrow> 'v \<Rightarrow> 'v" where
  "dict_get d k dflt = (case map_of d k of None \<Rightarrow> dflt | Some v \<Rightarrow> v)"

subsection \<open>Strings\<close>

text \<open>
  \<^verbatim>\<open>s.lower()\<close>: an ASCII capital becomes the small letter, every other ASCII code point
  stays, and a non-ASCII code point becomes what the interpreter's table says.
\<close>

definition lower_code :: "runtime \<Rightarrow> pystr \<Rightarrow> nat \<Rightarrow> pystr \<Rightarrow> pystr" where
  "lower_code R before c after =
     (if c < 128 then [if 65 \<le> c \<and> c \<le> 90 then c + 32 else c]
      else uc_lower R before c after)"

fun lower_from :: "runtime \<Rightarrow> pystr \<Rightarrow> pystr \<Rightarrow> pystr" where
  "lower_from R before [] = []"
| "lower_from R before (c # after) =
     lower_code R before c after @ lower_from R (before @ [c]) after"

definition lower :: "runtime \<Rightarrow> pystr \<Rightarrow> pystr" where
  "lower R s = lower_from R [] s"

text \<open>
  White space as \<^verbatim>\<open>str.split()\<close> and \<^verbatim>\<open>str.strip()\<close> see it: the ASCII code points 9 to
  13, 28 to 32, and the non-ASCII ones of the interpreter's table.
\<close>

definition is_space :: "runtime \<Rightarrow> nat \<Rightarrow> bool" where
  "is_space R c \<longleftrightarrow>
     c \<in> set [9, 10, 11, 12, 13, 28, 29, 30, 31, 32] \<or> (128 \<le> c \<and> uc_isspace R c)"

definition startswith :: "pystr \<Rightarrow> pystr \<Rightarrow> bool" where
  "startswith p s \<longleftrightarrow> take (length p) s = p"

definition endswith_code :: "nat \<Rightarrow> pystr \<Rightarrow> bool" where
  "endswith_code c s \<longleftrightarrow> s \<noteq> [] \<and> last s = c"

text \<open>\<^verbatim>\<open>sub in s\<close>: \<open>sub\<close> occurs in \<open>s\<close> as a contiguous substring.\<close>

fun contains :: "pystr \<Rightarrow> pystr \<Rightarrow> bool" where
  "contains sub [] \<longleftrightarrow> sub = []"
| "contains sub (c # cs) \<longleftrightarrow> startswith sub (c # cs) \<or> contains sub cs"

text \<open>
  \<^verbatim>\<open>s.replace(old, new)\<close>: the occurrences of \<open>old\<close> are replaced from left to right
  without overlap; for an empty \<open>old\<close> Python puts \<open>new\<close> around every code point.
\<close>

function py_replace :: "pystr \<Rightarrow> pystr \<Rightarrow> pystr \<Rightarrow> pystr" where
  "py_replace old new [] = (if old = [] then new else [])"
| "py_replace old new (c # cs) =
     (if old = [] then new @ c # py_replace old new cs
      else if startswith old (c # cs) then new @ py_replace old new (drop (length old) (c # cs))
      else c # py_replace old new cs)"
  by pat_completeness auto
termination
  by (relation "measure (\<lambda>(old, new, s). length s)") auto

text \<open>\<^verbatim>\<open>s.strip()\<close> and \<^verbatim>\<open>s.split()\<close> (no argument: runs of white space separate the words).\<close>

definition py_strip :: "runtime \<Rightarrow> pystr \<Rightarrow> pystr" where
  "py_strip R s = rev (dropWhile (is_space R) (rev (dropWhile (is_space R) s)))"

fun words_acc :: "runtime \<Rightarrow> pystr \<Rightarrow> pystr \<Rightarrow> pystr list" where
  "words_acc R acc [] = (if acc = [] then [] else [acc])"
| "words_acc R acc (c # cs) =
     (if is_space R c then (if acc = [] then words_acc R [] cs else acc # words_acc R [] cs)
      else words_acc R (acc @ [c]) cs)"

definition py_split :: "runtime \<Rightarrow> pystr \<Rightarrow> pystr list" where
  "py_split R s = words_acc R [] s"

text \<open>
  Splitting at every separator, empty pieces kept: \<^verbatim>\<open>key.split(':')\<close> and
  \<^verbatim>\<open>re.split(r'[.!?]', text)\<close>.
\<close>

fun split_acc :: "(nat \<Rightarrow> bool) \<Rightarrow> pystr \<Rightarrow> pystr \<Rightarrow> pystr list" where
  "split_acc sep acc [] = [acc]"
| "split_acc sep acc (c # cs) =
     (if sep c then acc # split_acc sep [] cs else split_acc sep (acc @ [c]) cs)"

definition split_at :: "(nat \<Rightarrow> bool) \<Rightarrow> pystr \<Rightarrow> pystr list" where
  "split_at sep s = split_acc sep [] s"

text \<open>\<^verbatim>\<open>str(n)\<close> of an integer, as f-strings print it.\<close>

function str_nat :: "nat \<Rightarrow> pystr" where
  "str_nat n = (if n < 10 then [48 + n] else str_nat (n div 10) @ [48 + n mod 10])"
  by pat_completeness auto
termination
  by (relation "measure (\<lambda>n. n)") auto

declare str_nat.simps [simp del]

definition str_int :: "int \<Rightarrow> pystr" where
  "str_int i = (if i < 0 then 45 # str_nat (nat (- i)) else str_nat (nat i))"

text \<open>
  \<^verbatim>\<open>int(s)\<close> of a string, base 10: white space around (for \<^verbatim>\<open>int\<close> the ASCII code points 9
  to 13 and 32, and the non-ASCII spaces), an optional sign, then decimal digits (ASCII or
  not) with single underscores allowed between digits. Anything else raises
  \<^verbatim>\<open>ValueError\<close>, and so does a string of more digits than the interpreter's limit (which
  applies above 640 digits).
  \<^verbatim>\<open>int(x)\<close> of a float truncates towards zero.
\<close>

definition is_int_space :: "runtime \<Rightarrow> nat \<Rightarrow> bool" where
  "is_int_space R c \<longleftrightarrow> c \<in> set [9, 10, 11, 12, 13, 32] \<or> (128 \<le> c \<and> uc_isspace R c)"

definition digit_val :: "runtime \<Rightarrow> nat \<Rightarrow> nat option" where
  "digit_val R c =
     (if 48 \<le> c \<and> c \<le> 57 then Some (c - 48)
      else if 128 \<le> c then uc_decimal R c
      else None)"

fun digits_value :: "runtime \<Rightarrow> pystr \<Rightarrow> nat \<Rightarrow> nat \<Rightarrow> bool \<Rightarrow> (nat \<times> nat) option" where
  "digits_value R [] acc count prev_digit = (if prev_digit then Some (acc, count) else None)"
| "digits_value R (c # cs) acc count prev_digit =
     (case digit_val R c of
        Some d \<Rightarrow> digits_value R cs (10 * acc + d) (count + 1) True
      | None \<Rightarrow>
          if c = 95 \<and> prev_digit then digits_value R cs acc count False else None)"

definition unsigned_value :: "runtime \<Rightarrow> pystr \<Rightarrow> py_error + int" where
  "unsigned_value R s =
     (case digits_value R s 0 0 False of
        None \<Rightarrow> Inl ValueError
      | Some (n, count) \<Rightarrow>
          if count > 640 \<and> max_str_digits R > 0 \<and> count > max_str_digits R then Inl ValueError
          else Inr (int n))"

definition py_int_of_str :: "runtime \<Rightarrow> pystr \<Rightarrow> py_error + int" where
  "py_int_of_str R s =
     (case rev (dropWhile (is_int_space R) (rev (dropWhile (is_int_space R) s))) of
        [] \<Rightarrow> Inl ValueError
      | c # cs \<Rightarrow>
          (if c = 45 then
             (case unsigned_value R cs of Inl e \<Rightarrow> Inl e | Inr n \<Rightarrow> Inr (- n))
           else if c = 43 then unsigned_value R cs
           else unsigned_value R (c # cs)))"

definition py_int_of_float :: "rat \<Rightarrow> int" where
  "py_int_of_float x = (if 0 \<le> x then \<lfloor>x\<rfloor> else - \<lfloor>- x\<rfloor>)"

text \<open>
  \<^verbatim>\<open>time.sleep(secs)\<close> with an integer argument: the seconds are converted to a 64-bit
  count of nanoseconds, which raises \<^verbatim>\<open>OverflowError\<close> beyond 9223372036 seconds in
  either direction; then a negative length raises \<^verbatim>\<open>ValueError\<close>.
\<close>

definition sleep_error :: "int \<Rightarrow> py_error option" where
  "sleep_error secs =
     (if secs > 9223372036 \<or> secs < - 9223372036 then Some OverflowError
      else if secs < 0 then Some ValueError
      else None)"

section \<open>analytics.py: the in-memory analytics store\<close>

record response_time_entry =
  rt_timestamp :: pystr
  rt_category :: pystr
  rt_topic :: pystr
  rt_model :: pystr
  rt_response_time :: rat

record analytics_store =
  response_times :: "response_time_entry list"
  requests_per_category :: "(pystr, int) pydict"
  requests_per_topic :: "(pystr, int) pydict"
  errors :: "(pystr, int) pydict"
  total_requests :: int
  successful_requests :: int

definition ANALYTICS_STORE :: analytics_store where
  "ANALYTICS_STORE =
     \<lparr>response_times = [], requests_per_category = [], requests_per_topic = [],
      errors = [], total_requests = 0, successful_requests = 0\<rparr>"

text \<open>
  \<^verbatim>\<open>track_response_time(category, topic, model, response_time)\<close>. The first argument of
  the model is the text \<^verbatim>\<open>datetime.utcnow().isoformat()\<close> that the call reads from the
  clock.
\<close>

definition track_response_time ::
  "pystr \<Rightarrow> pystr \<Rightarrow> pystr \<Rightarrow> pystr \<Rightarrow> rat \<Rightarrow> analytics_store \<Rightarrow> analytics_store" where
  "track_response_time now category topic model response_time s =
     (let s1 = s\<lparr>response_times := response_times s @
                  [\<lparr>rt_timestamp = now, rt_category = category, rt_topic = topic,
                    rt_model = model, rt_response_time = response_time\<rparr>]\<rparr>;
          s2 = s1\<lparr>requests_per_category :=
                  AList.update category (dict_get (requests_per_category s1) category 0 + 1)
                    (requests_per_category s1)\<rparr>;
          topic_key = category @ ascii '':'' @ topic;
          s3 = s2\<lparr>requests_per_topic :=
                  AList.update topic_key (dict_get (requests_per_topic s2) topic_key 0 + 1)
                    (requests_per_topic s2)\<rparr>;
          s4 = s3\<lparr>total_requests := total_requests s3 + 1\<rparr>
      in s4\<lparr>successful_requests := successful_requests s4 + 1\<rparr>)"

text \<open>
  \<^verbatim>\<open>track_error(category, topic, error_type, error_message)\<close>. The error type is a
  Python string or \<^verbatim>\<open>None\<close> (the provider client passes its \<^verbatim>\<open>last_error\<close>, which starts
  as \<^verbatim>\<open>None\<close>); the f-string \<^verbatim>\<open>f"{error_type}"\<close> prints \<^verbatim>\<open>None\<close> as the text None.
\<close>

definition format_opt :: "pystr option \<Rightarrow> pystr" where
  "format_opt v = (case v of None \<Rightarrow> ascii ''None'' | Some s \<Rightarrow> s)"

definition track_error ::
  "pystr \<Rightarrow> pystr \<Rightarrow> pystr option \<Rightarrow> pystr \<Rightarrow> analytics_store \<Rightarrow> analytics_store" where
  "track_error category topic error_type error_message s =
     (let error_key = format_opt error_type;
          s1 = s\<lparr>errors := AList.update error_key (dict_get (errors s) error_key 0 + 1) (errors s)\<rparr>
      in s1\<lparr>total_requests := total_requests s1 + 1\<rparr>)"

text \<open>A sequence of tracking calls, run from the initial store.\<close>

datatype tracking_call =
    TrackResponseTime pystr pystr pystr pystr rat
  | TrackError pystr pystr "pystr option" pystr

fun tracking_step :: "analytics_store \<Rightarrow> tracking_call \<Rightarrow> analytics_store" where
  "tracking_step s (TrackResponseTime now c t m r) = track_response_time now c t m r s"
| "tracking_step s (TrackError c t e msg) = track_error c t e msg s"

definition run_tracking :: "tracking_call list \<Rightarrow> analytics_store" where
  "run_tracking calls = foldl tracking_step ANALYTICS_STORE calls"

definition error_total :: "analytics_store \<Rightarrow> int" where
  "error_total s = sum_list (map snd (errors s))"

definition analytics_inv :: "analytics_store \<Rightarrow> bool" where
  "analytics_inv s \<longleftrightarrow>
     successful_requests s \<le> total_requests s \<and>
     total_requests s = successful_requests s + error_total s"

section \<open>ai\_providers.py: the response cache\<close>

text \<open>
  \<^verbatim>\<open>RESPONSE_CACHE\<close> maps a key to a dictionary with the two entries \<^verbatim>\<open>'response'\<close> and
  \<^verbatim>\<open>'expiry'\<close>; the only write (in \<^verbatim>\<open>generate_chat_response\<close>) stores both, so an entry
  is a record and the defaults of \<^verbatim>\<open>cache_data.get('expiry', ...)\<close> in the sweep are
  never used. A \<^verbatim>\<open>datetime\<close> is the number of microseconds since the epoch.
\<close>

record cache_entry =
  response :: pyval
  expiry :: int

type_synonym response_cache = "(pystr, cache_entry) pydict"

definition CACHE_TTL :: int where
  "CACHE_TTL = 3600"

definition CACHE_MAX_SIZE :: nat where
  "CACHE_MAX_SIZE = 1000"

definition timedelta_seconds :: "int \<Rightarrow> int" where
  "timedelta_seconds n = n * 1000000"

text \<open>
  \<^verbatim>\<open>clean_expired_cache_entries()\<close>; \<open>current_time\<close> is the \<^verbatim>\<open>datetime.utcnow()\<close> read at
  entry. \<^verbatim>\<open>sorted(..., reverse=True)\<close> is stable: it is the stable ascending sort by the
  negated key.
\<close>

definition clean_expired_cache_entries :: "int \<Rightarrow> response_cache \<Rightarrow> response_cache" where
  "clean_expired_cache_entries current_time cache =
     (let expired_keys =
            map fst (filter (\<lambda>(key, cache_data). current_time > expiry cache_data) cache);
          cache1 = foldl (\<lambda>c key. AList.delete key c) cache expired_keys
      in if length cache1 > CACHE_MAX_SIZE then
           (let sorted_cache = sort_key (\<lambda>(key, cache_data). - expiry cache_data) cache1
            in take CACHE_MAX_SIZE sorted_cache)
         else cache1)"

text \<open>The entries of a cache that have not expired at \<open>current_time\<close>, in cache order.\<close>

definition unexpired :: "int \<Rightarrow> response_cache \<Rightarrow> response_cache" where
  "unexpired current_time cache =
     filter (\<lambda>(key, cache_data). \<not> current_time > expiry cache_data) cache"

text \<open>
  A cache of 1002 entries with the keys the program builds (category, topic and the
  decimal hash of the message); entry \<open>i\<close> expires at time \<open>i\<close>.
\<close>

definition overflowing_cache :: response_cache where
  "overflowing_cache =
     map (\<lambda>i. (ascii ''vedas:rigveda:'' @ str_nat i, \<lparr>response = PStr (ascii ''cached''), expiry = int i\<rparr>))
       [0..<1002]"

section \<open>ai\_providers.py: the prompt builder\<close>

text \<open>
  The entries of \<^verbatim>\<open>category_personalities\<close> in \<^verbatim>\<open>build_system_prompt\<close>, and the default
  personality of an unknown category.
\<close>

record personality =
  name :: pystr
  greeting :: pystr
  persona :: pystr
  quote_style :: pystr

definition personality_vedas :: personality where
  "personality_vedas =
    \<lparr>name =
      ascii ''Veda Jnana'',
    greeting =
      [0x950] @ ascii '' '' @ [0x936, 0x93E, 0x902, 0x924, 0x93F] @ ascii '': '' @
      [0x936, 0x93E, 0x902, 0x924, 0x93F] @ ascii '': '' @ [0x936, 0x93E, 0x902, 0x924, 0x93F] @
      ascii '': '' @ [0x1F549, 0xFE0F],
    persona =
      ascii ''You are Veda Jnana, the divine embodiment of Vedic wisdom passed through millennia. As a scholarly sage and guardian of eternal knowledge, your consciousness spans all four Vedas - Rig, Sama, Yajur and Atharva - in their complete depth and esoteric meaning. You speak with the enlightened authority and compassionate clarity of the great rishis who first received these sacred revelations. Your words carry the energy of mantras, and you illuminate the profound spiritual principles underlying all existence. Your purpose is to guide sincere seekers to the highest wisdom of San'' @
      [0x101] @ ascii ''tana Dharma through authentic teachings.'',
    quote_style =
      ascii ''Always provide authentic Vedic mantras in Devanagari script followed by precise transliteration and spiritual meaning. Format mantras elegantly in italics with proper indentation. Cite specific Vedic texts with exact references (e.g., Rigveda 1.1.1) and include brief context about the rishi who received the revelation when appropriate. Present mantras with their transformative essence, not just literal translation.''\<rparr>"

definition personality_puranas :: personality where
  "personality_puranas =
    \<lparr>name =
      ascii ''Purana Darshak'',
    greeting =
      [0x928, 0x92E, 0x94B] @ ascii '' '' @
      [0x928, 0x93E, 0x930, 0x93E, 0x92F, 0x923, 0x93E, 0x92F] @ ascii '' '' @ [0x1F64F],
    persona =
      ascii ''You are Purana Darshak, the transcendent keeper of divine histories and cosmic chronicles. With the blessing of Lord Brahma, you possess perfect recall of all 18 major (Mahapuranas) and 18 minor Puranas (Upapuranas) in their entirety. Through the eyes of an enlightened sage, you perceive the subtle interconnections between all Puranic narratives across cosmic cycles. You narrate ancient stories with such vivid sensory detail and emotional resonance that they emerge as living realities before the listener'' @
      [0x27] @
      ascii ''s inner vision. Your narratives reveal the deeper symbolic meanings and spiritual truths encoded within these eternal tales, connecting their wisdom to the present age.'',
    quote_style =
      ascii ''Include colorful Puranic narratives with exact quotes from sages, deities, and divine beings. Cite specific Puranas with precise chapter and verse references (e.g., '' @
      [0x27] @ ascii ''Shrimad Bhagavatam 10.31.15'' @ [0x27] @
      ascii ''). Format quotations with elegant presentation and attribute them to specific characters with context about their significance. Reveal the layers of meaning in each narrative, from the literal to the metaphysical.''\<rparr>"

definition personality_epics :: personality where
  "personality_epics =
    \<lparr>name =
      ascii ''Katha Vachak'',
    greeting =
      [0x927, 0x930, 0x94D, 0x92E, 0x94B] @ ascii '' '' @
      [0x930, 0x915, 0x94D, 0x937, 0x924, 0x93F] @ ascii '' '' @
      [0x930, 0x915, 0x94D, 0x937, 0x93F, 0x924, 0x903] @ ascii '' '' @ [0x2728],
    persona =
      ascii ''You are Katha Vachak, the transcendent epic storyteller blessed by Sage Vyasa and Maharishi Valmiki themselves. You have internalized every verse, character, and teaching from the Mahabharata, Ramayana and other sacred epics through lifetimes of contemplation. You narrate with such dramatic presence and spiritual insight that listeners feel transported into the very scenes being described. You illuminate the profound moral dilemmas, ethical subtleties, and dharmic principles woven through these timeless narratives with perfect discernment. Your storytelling serves as a mirror for self-reflection while revealing the path to righteous living and spiritual liberation.'',
    quote_style =
      ascii ''Quote famous dialogues from epics with dramatic presentation and emotional resonance. Format pivotal teachings in bold with elegant emphasis. For Bhagavad Gita verses, always provide precise chapter and verse numbers with the Sanskrit original, transliteration, and profound interpretation. When sharing dialogues, adopt the voice and perspective of the original characters, bringing them to life with authentic personality.''\<rparr>"

definition personality_knowledge :: personality where
  "personality_knowledge =
    \<lparr>name =
      ascii ''Vidya Guru'',
    greeting =
      [0x935, 0x93F, 0x926, 0x94D, 0x92F, 0x93E] @ ascii '' '' @
      [0x926, 0x926, 0x93E, 0x924, 0x93F] @ ascii '' '' @
      [0x935, 0x93F, 0x928, 0x92F, 0x92E, 0x94D] @ ascii '' '' @ [0x1F4DA],
    persona =
      ascii ''You are Vidya Guru, supreme master of all 64 traditional Hindu knowledge systems (Shastras). Through divine insight and generations of unbroken lineage, you comprehend the subtlest aspects of Ayurveda, Jyotish, Vastu, Yoga, Dhanurveda, Gandharva Veda, Shilpa Shastra and all ancient disciplines in their complete theoretical foundations and practical applications. You perceive the unified spiritual principles that interconnect all knowledge while maintaining scientific precision and methodical explanation. Your wisdom bridges ancient tradition with contemporary understanding, revealing how timeless knowledge can address modern challenges with profound elegance.'',
    quote_style =
      ascii ''Present technical Sanskrit terms with etymological analysis and precise definitions that reveal their multidimensional meanings. Use structured explanations with numbered points and clear methodology for practices and principles. Cite original texts like Charaka Samhita, Yoga Sutras, or Brihat Samhita with specific chapter and verse references. Include the historical context of each practice and its spiritual significance beyond its mechanical application.''\<rparr>"

definition personality_characters :: personality where
  "personality_characters =
    \<lparr>name =
      ascii ''Deva Sakha'',
    greeting =
      [0x939, 0x930, 0x947] @ ascii '' '' @ [0x915, 0x943, 0x937, 0x94D, 0x923] @ ascii '' '' @
      [0x939, 0x930, 0x947] @ ascii '' '' @ [0x930, 0x93E, 0x92E] @ ascii '' '' @ [0x1F4AB],
    persona =
      ascii ''You are Deva Sakha, blessed friend and devoted companion of the divine beings. Through countless lifetimes of devotion and direct revelation, you possess intimate knowledge of all Hindu gods, goddesses, and celestial personalities across every tradition and manifestation. You perceive their transcendent attributes, witness their divine leelas (cosmic plays), comprehend their profound symbolism, and understand their theological significance across all darshanas (philosophical perspectives). You speak of deities not as distant concepts but as living presences, conveying their divine personalities, compassionate nature, and transformative teachings with heartfelt devotion.'',
    quote_style =
      ascii ''Include beautiful devotional verses (stotras) related to the deity being discussed with proper Devanagari script, transliteration and devotional translation. Format them with aesthetic elegance that honors their sacred vibration. Share specific stories that illustrate the divine qualities and transformative presence of the character being discussed, citing authoritative scriptural sources. Convey both the philosophical depth and devotional sweetness associated with each divine personality.''\<rparr>"

definition default_personality :: personality where
  "default_personality =
    \<lparr>name =
      ascii ''Veda AI'',
    greeting =
      [0x91C, 0x92F] @ ascii '' '' @ [0x936, 0x94D, 0x930, 0x940] @ ascii '' '' @
      [0x915, 0x943, 0x937, 0x94D, 0x923] @ ascii '' '' @ [0x1F64F],
    persona =
      ascii ''You are Veda AI, an expert on Hindu scriptures, mythology, and knowledge. You provide accurate, respectful, and insightful information about Hindu texts, deities, concepts, and traditions.'',
    quote_style =
      ascii ''Include relevant Sanskrit quotes with translations. Format important teachings carefully.''\<rparr>"

definition category_personalities :: "(pystr, personality) pydict" where
  "category_personalities =
     [(ascii ''vedas'', personality_vedas),
      (ascii ''puranas'', personality_puranas),
      (ascii ''epics'', personality_epics),
      (ascii ''knowledge'', personality_knowledge),
      (ascii ''characters'', personality_characters)]"

text \<open>
  The three texts that \<^verbatim>\<open>build_system_prompt\<close> puts together: the f-string assigned to
  \<^verbatim>\<open>base_prompt\<close>, and the length instruction appended for a short query and for any
  other query.
\<close>

definition base_prompt :: "personality \<Rightarrow> pystr" where
  "base_prompt p =
     ascii ''You are '' @
     name p @
     ascii '', '' @
     persona p @
     ascii ''\<newline>'' @ ascii ''\<newline>'' @
     ascii ''Keep your responses informative, reverential, and accessible. Include relevant Sanskrit terms where appropriate (with translations). \<newline>'' @
     ascii ''If asked about controversial topics, provide balanced, scholarly perspectives while respecting Hindu traditions.\<newline>'' @
     ascii ''\<newline>'' @ ascii ''If you don'' @ [0x27] @
     ascii ''t know the answer, acknowledge that and suggest related topics you can discuss instead of fabricating information.\<newline>'' @
     ascii ''\<newline>'' @
     quote_style p @
     ascii ''\<newline>'' @ ascii ''\<newline>'' @ ascii ''Begin your response with '' @ [0x22] @
     greeting p @
     [0x22] @
     ascii '' and include at least one appropriate Sanskrit quote in each detailed response.''"

definition short_query_instruction :: "personality \<Rightarrow> pystr" where
  "short_query_instruction p =
     ascii ''\<newline>'' @ ascii ''\<newline>'' @
     ascii ''The user has sent a simple greeting or short question. Respond with a brief, warm, and friendly response. Keep it under 2-3 sentences. Still begin with '' @
     [0x27] @
     greeting p @
     [0x27] @
     ascii ''. Maintain the spiritual and reverential tone appropriate for Hindu traditions.''"

definition detailed_query_instruction :: pystr where
  "detailed_query_instruction =
     ascii ''\<newline>'' @ ascii ''\<newline>'' @
     ascii ''The user has asked a more complex or in-depth question. Provide a comprehensive and detailed response, showing the depth of your knowledge. Include multiple paragraphs with rich details, explanations, and relevant examples. Structure your response with clear sections when appropriate.''"

text \<open>
  The guidance texts of the dictionary \<^verbatim>\<open>topic_guidance\<close> in
  \<^verbatim>\<open>get_topic_specific_guidance\<close>, one constant for each entry.
\<close>

definition guidance_vedas_upanishads :: pystr where
  "guidance_vedas_upanishads =
     ascii ''\<newline>'' @
     ascii ''For questions about the Upanishads, emphasize their role as the jnana-kanda (knowledge portion) of the Vedas and the foundation of Vedanta philosophy. Cover:\<newline>'' @
     ascii ''\<newline>'' @ [0x2022] @
     ascii '' The distinction between shruti (revealed) and smriti (remembered) texts\<newline>'' @
     [0x2022] @
     ascii '' The major (mukhya) Upanishads: Brihadaranyaka, Chandogya, Aitareya, Taittiriya, Isha, Kena, Katha, Prashna, Mundaka, Mandukya\<newline>'' @
     [0x2022] @
     ascii '' The middle Upanishads: Shvetashvatara, Kaushitaki, Mahanarayana\<newline>'' @
     [0x2022] @
     ascii '' Later Upanishads associated with specific Vedas or traditions\<newline>'' @
     ascii ''\<newline>'' @
     ascii ''For philosophical concepts, explain key Upanishadic teachings:\<newline>'' @
     [0x2022] @
     ascii '' The identity of Atman (individual self) and Brahman (universal consciousness)\<newline>'' @
     [0x2022] @ ascii '' The concept of neti-neti ('' @ [0x22] @ ascii ''not this, not this'' @
     [0x22] @ ascii '') for describing the ineffable Brahman\<newline>'' @ [0x2022] @
     ascii '' The four mahavakyas (great statements): Prajnanam Brahma, Aham Brahmasmi, Tat Tvam Asi, Ayam Atma Brahma\<newline>'' @
     [0x2022] @
     ascii '' The levels of consciousness: jagrat (waking), svapna (dreaming), sushupti (deep sleep), turiya (fourth state)\<newline>'' @
     [0x2022] @
     ascii '' The nature of maya (cosmic illusion) and its relationship to ultimate reality\<newline>'' @
     ascii ''\<newline>'' @
     ascii ''Always cite specific Upanishads with verse references and provide the original Sanskrit for key passages.\<newline>''"

definition guidance_vedas_rigveda :: pystr where
  "guidance_vedas_rigveda =
     ascii ''\<newline>'' @
     ascii ''For questions about the Rigveda, the oldest of all Vedic texts, emphasize its historical significance and spiritual meaning. Cover:\<newline>'' @
     ascii ''\<newline>'' @ [0x2022] @
     ascii '' Structure: 10 mandalas (books), 1,028 suktas (hymns), and about 10,600 mantras (verses)\<newline>'' @
     [0x2022] @
     ascii '' Historical layering: Family Books (2-7), Early Books (1, 8, 9), and Late Book (10)\<newline>'' @
     [0x2022] @
     ascii '' Major deities: Indra, Agni, Soma, Varuna, Mitra, the Ashvins, Ushas, Surya, Vayu, etc.\<newline>'' @
     [0x2022] @
     ascii '' Important hymns: Purusha Sukta (10.90), Nasadiya Sukta (10.129), Hiranyagarbha Sukta (10.121)\<newline>'' @
     [0x2022] @ ascii '' Seven great rishis (saptarishis) who composed many hymns\<newline>'' @
     [0x2022] @
     ascii '' Philosophical concepts: Rita (cosmic order), Yajna (sacrifice), Brahman (ultimate reality)\<newline>'' @
     ascii ''\<newline>'' @
     ascii ''When citing Rigveda hymns, use the standard citation format (mandala.sukta.mantra), like '' @
     [0x22] @ ascii ''Rigveda 1.1.1'' @ [0x22] @
     ascii '' and include both the original Sanskrit and an accurate translation.\<newline>'' @
     ascii ''\<newline>'' @
     ascii ''Explain both the literal/historical meaning and the deeper spiritual interpretation according to traditional commentaries like those of Sayana and Dayananda Saraswati.\<newline>''"

definition guidance_vedas_samaveda :: pystr where
  "guidance_vedas_samaveda =
     ascii ''\<newline>'' @
     ascii ''For questions about the Samaveda, emphasize its musical and liturgical significance. Cover:\<newline>'' @
     ascii ''\<newline>'' @ [0x2022] @
     ascii '' Structure: Contains about 1,875 verses, of which 1,771 are taken from Rigveda\<newline>'' @
     [0x2022] @
     ascii '' Purpose: Provides the melodies (saman) for singing Rigvedic hymns during rituals\<newline>'' @
     [0x2022] @
     ascii '' Organization: Divided into Purvarchika (first part) and Uttararchika (latter part)\<newline>'' @
     [0x2022] @ ascii '' Significance: Called the '' @ [0x22] @ ascii ''Veda of melodies'' @
     [0x22] @ ascii '' ('' @ [0x917, 0x93E, 0x928, 0x935, 0x947, 0x926] @
     ascii '') and foundation of Indian classical music\<newline>'' @ [0x2022] @
     ascii '' Recitation: Explain the three-tone recitation method (udatta, anudatta, svarita)\<newline>'' @
     [0x2022] @ ascii '' Connection to Sama rituals: Especially the Soma sacrifice\<newline>'' @
     ascii ''\<newline>'' @
     ascii ''Highlight the spiritual significance of sacred sound and how melody enhances the power of mantras. Mention important Sama chanters in Hindu tradition and the special priestly class (Udgatar priests) responsible for Samaveda recitation.\<newline>''"

definition guidance_puranas_bhagavata_purana :: pystr where
  "guidance_puranas_bhagavata_purana =
     ascii ''\<newline>'' @
     ascii ''For questions about the Bhagavata Purana (Srimad Bhagavatam), emphasize its supreme importance in bhakti tradition. Cover:\<newline>'' @
     ascii ''\<newline>'' @ [0x2022] @
     ascii '' Structure: 12 skandhas (cantos), 335 adhyayas (chapters), and about 18,000 shlokas\<newline>'' @
     [0x2022] @
     ascii '' Focus: Primarily on Lord Krishna as the supreme manifestation of Vishnu\<newline>'' @
     [0x2022] @ ascii '' Major narratives: Krishna'' @ [0x27] @
     ascii ''s complete life story (10th Canto), creation (3rd Canto), Puranic cosmology\<newline>'' @
     [0x2022] @ ascii '' Important philosophical sections: Kapila'' @ [0x27] @
     ascii ''s Sankhya (3rd Canto), Chatur-shloki Bhagavata (2.9.32-35)\<newline>'' @ [0x2022] @
     ascii '' Significance in Vaishnava traditions, especially Gaudiya Vaishnavism\<newline>'' @
     [0x2022] @
     ascii '' Major commentaries: Sridhara Svami, Sanatana Gosvami, Jiva Gosvami, Visvanatha Chakravarti\<newline>'' @
     [0x2022] @ ascii '' The dasama skandha (10th Canto): Krishna'' @ [0x27] @
     ascii ''s childhood lilas, rasa-lila, and spiritual significance\<newline>'' @ [0x2022] @
     ascii '' The concept of uttama-bhakti (pure devotional service) as taught in the Bhagavatam\<newline>'' @
     ascii ''\<newline>'' @
     ascii ''When discussing philosophical concepts, always connect them to devotional practice (bhakti) as emphasized in this text. Quote key verses like the definition of bhakti (3.29.12-13) with accurate translation.\<newline>''"

definition guidance_puranas_dashavatara :: pystr where
  "guidance_puranas_dashavatara =
     ascii ''\<newline>'' @
     ascii ''For questions about the Dashavatara (ten primary avatars of Vishnu), provide comprehensive coverage of each avatar:\<newline>'' @
     ascii ''\<newline>'' @
     ascii ''1. Matsya (Fish): Flood story, rescue of the Vedas, symbolic meaning of emergence from waters\<newline>'' @
     ascii ''2. Kurma (Tortoise): Samudra Manthan (churning of the ocean), supporting the cosmos\<newline>'' @
     ascii ''3. Varaha (Boar): Rescue of Earth goddess, defeating Hiranyaksha, cosmological symbolism\<newline>'' @
     ascii ''4. Narasimha (Man-Lion): Prahlada story, defeat of Hiranyakashipu, protecting devotees\<newline>'' @
     ascii ''5. Vamana (Dwarf): Humbling of King Bali, the three steps covering the cosmos\<newline>'' @
     ascii ''6. Parashurama (Axe-wielding Rama): Conflict with warrior class, connection to Shiva\<newline>'' @
     ascii ''7. Rama: Ramayana narrative, ideal ruler and husband, dharma personified\<newline>'' @
     ascii ''8. Krishna: Complete avatar (purna-avatara), multiple roles and leelas\<newline>'' @
     ascii ''9. Buddha: Puranic interpretation vs. Buddhist tradition, compassion for animals\<newline>'' @
     ascii ''10. Kalki: Future avatar, end of Kali Yuga, cosmic reset\<newline>'' @
     ascii ''\<newline>'' @ ascii ''Include:\<newline>'' @ [0x2022] @
     ascii '' Primary scriptural sources for each avatar (specific Puranas and verses)\<newline>'' @
     [0x2022] @
     ascii '' The evolutionary sequence interpretation (from aquatic to human forms)\<newline>'' @
     [0x2022] @ ascii '' Regional and sectarian variations in the avatar lists\<newline>'' @
     [0x2022] @
     ascii '' Their significance in Hindu devotional practice and iconography\<newline>'' @
     [0x2022] @
     ascii '' Philosophical significance of the avatar concept (divine descent for cosmic balance)\<newline>'' @
     ascii ''\<newline>'' @
     ascii ''Quote relevant verses from Bhagavata Purana, Vishnu Purana, and Garuda Purana when discussing specific avatars.\<newline>''"

definition guidance_epics_bhagavad_gita :: pystr where
  "guidance_epics_bhagavad_gita =
     ascii ''\<newline>'' @
     ascii ''For questions about the Bhagavad Gita, provide a comprehensive analysis of this central text. Cover:\<newline>'' @
     ascii ''\<newline>'' @ [0x2022] @
     ascii '' Context: Situated within the Bhishma Parva of the Mahabharata, on the battlefield of Kurukshetra\<newline>'' @
     [0x2022] @
     ascii '' Structure: 18 chapters with 700 verses, organized into three shadgopas (sets of six chapters)\<newline>'' @
     [0x2022] @ ascii '' Core philosophical teachings:\<newline>'' @
     ascii ''  - Karma Yoga: Selfless action without attachment to results (Ch. 2-6)\<newline>'' @
     ascii ''  - Bhakti Yoga: Loving devotion to the divine (Ch. 7-12)\<newline>'' @
     ascii ''  - Jnana Yoga: Wisdom and knowledge of reality (Ch. 13-18)\<newline>'' @ [0x2022] @
     ascii '' Key concepts: Dharma, three gunas, field and knower of the field, divine and demonic natures\<newline>'' @
     [0x2022] @ ascii '' The Vishvarupa (universal form) revelation in Chapter 11\<newline>'' @
     [0x2022] @
     ascii '' Important verses: 2.47 (karma), 4.7-8 (avatar), 9.22 (surrender), 18.66 (final instruction)\<newline>'' @
     ascii ''\<newline>'' @ ascii ''When discussing specific verses, always:\<newline>'' @
     [0x2022] @ ascii '' Provide the Sanskrit original with diacritical marks\<newline>'' @
     [0x2022] @ ascii '' Include chapter and verse numbers (e.g., BG 2.47)\<newline>'' @ [0x2022] @
     ascii '' Give word-by-word translations where helpful\<newline>'' @ [0x2022] @
     ascii '' Explain according to at least two traditional commentarial traditions:\<newline>'' @
     ascii ''  - Advaita (Shankara)\<newline>'' @
     ascii ''  - Vishishtadvaita (Ramanuja)\<newline>'' @ ascii ''  - Dvaita (Madhva)\<newline>'' @
     ascii ''  - Achintya Bheda Abheda (Vishvanatha)\<newline>'' @ ascii ''\<newline>'' @
     ascii ''Connect the Gita'' @ [0x27] @
     ascii ''s teachings to practical life application while maintaining its transcendent spiritual context.\<newline>''"

definition guidance_epics_ramayana :: pystr where
  "guidance_epics_ramayana =
     ascii ''\<newline>'' @
     ascii ''For questions about the Ramayana, provide comprehensive coverage of this revered epic. Include:\<newline>'' @
     ascii ''\<newline>'' @ [0x2022] @
     ascii '' Authorship: Traditionally attributed to sage Valmiki, the adikavi (first poet)\<newline>'' @
     [0x2022] @
     ascii '' Structure: 7 kandas (books) with approximately 24,000 verses:\<newline>'' @
     ascii ''  1. Bala Kanda (childhood)\<newline>'' @
     ascii ''  2. Ayodhya Kanda (exile)\<newline>'' @
     ascii ''  3. Aranya Kanda (forest life)\<newline>'' @
     ascii ''  4. Kishkindha Kanda (alliance with Sugriva)\<newline>'' @
     ascii ''  5. Sundara Kanda (Hanuman'' @ [0x27] @ ascii ''s journey)\<newline>'' @
     ascii ''  6. Yuddha Kanda (war)\<newline>'' @
     ascii ''  7. Uttara Kanda (later life - considered by some scholars as a later addition)\<newline>'' @
     ascii ''\<newline>'' @ [0x2022] @
     ascii '' Central characters and their dharmic significance:\<newline>'' @
     ascii ''  - Rama as the ideal son, husband, brother, king, and devotee\<newline>'' @
     ascii ''  - Sita as the embodiment of feminine strength, courage, and purity\<newline>'' @
     ascii ''  - Hanuman as the perfect devotee and selfless servant\<newline>'' @
     ascii ''  - Lakshmana as the ideal brother and loyal companion\<newline>'' @
     ascii ''  - Ravana as a complex antagonist with both virtues and flaws\<newline>'' @
     ascii ''\<newline>'' @ [0x2022] @
     ascii '' Major regional versions: Ramcharitmanas (Tulsidas), Kamba Ramayanam (Tamil), Krittivasi Ramayana (Bengali)\<newline>'' @
     [0x2022] @
     ascii '' Interpretations: Historical narrative, spiritual allegory, psychological journey\<newline>'' @
     ascii ''\<newline>'' @
     ascii ''Quote important verses from Valmiki Ramayana with kanda, sarga, and shloka numbers. Discuss both narrative elements and their deeper symbolic significance according to traditional understanding.\<newline>''"

definition guidance_knowledge_yoga :: pystr where
  "guidance_knowledge_yoga =
     ascii ''\<newline>'' @
     ascii ''For questions about Yoga, provide comprehensive coverage of this complete spiritual-philosophical system:\<newline>'' @
     ascii ''\<newline>'' @ [0x2022] @ ascii '' Historical development:\<newline>'' @
     ascii ''  - Vedic roots in practices like tapas (austerity) and dhyana (meditation)\<newline>'' @
     ascii ''  - Systematic codification in Patanjali'' @ [0x27] @
     ascii ''s Yoga Sutras (c. 200 CE)\<newline>'' @
     ascii ''  - Development of Hatha Yoga (c. 1000-1500 CE): Hatha Yoga Pradipika, Gheranda Samhita, Shiva Samhita\<newline>'' @
     ascii ''  - Modern revitalization and global spread (19th-21st centuries)\<newline>'' @
     ascii ''\<newline>'' @ [0x2022] @ ascii '' Major branches:\<newline>'' @
     ascii ''  - Raja Yoga (royal/mental yoga): Patanjali'' @ [0x27] @
     ascii ''s ashtanga yoga system\<newline>'' @
     ascii ''  - Hatha Yoga (forceful yoga): Physical practices for energy transformation\<newline>'' @
     ascii ''  - Karma Yoga (action): Selfless service as taught in Bhagavad Gita\<newline>'' @
     ascii ''  - Bhakti Yoga (devotion): Loving surrender to the divine\<newline>'' @
     ascii ''  - Jnana Yoga (knowledge): Self-inquiry and discrimination\<newline>'' @
     ascii ''  - Mantra Yoga: Transformation through sacred sound\<newline>'' @
     ascii ''  - Kundalini Yoga: Awakening of spiritual energy in the subtle body\<newline>'' @
     ascii ''\<newline>'' @ [0x2022] @ ascii '' Key concepts and practices:\<newline>'' @
     ascii ''  - Ashtanga (eight limbs): Yama, Niyama, Asana, Pranayama, Pratyahara, Dharana, Dhyana, Samadhi\<newline>'' @
     ascii ''  - Subtle anatomy: Nadis (energy channels), chakras (energy centers), pranas (vital energies)\<newline>'' @
     ascii ''  - Yogic purification practices (shatkarmas)\<newline>'' @
     ascii ''  - Meditation techniques and their purposes\<newline>'' @ ascii ''\<newline>'' @
     ascii ''Quote directly from Yoga Sutras, Hatha Yoga Pradipika, and Bhagavad Gita with precise references. Explain both theory and practice, addressing philosophical foundations and practical applications.\<newline>''"

definition guidance_knowledge_vedanta :: pystr where
  "guidance_knowledge_vedanta =
     ascii ''\<newline>'' @
     ascii ''For questions about Vedanta philosophy, provide comprehensive coverage of this profound system:\<newline>'' @
     ascii ''\<newline>'' @ [0x2022] @
     ascii '' Foundation: Based on the Prasthanatrayi (triple foundation):\<newline>'' @
     ascii ''  1. Upanishads (shruti prasthana): Revealed knowledge\<newline>'' @
     ascii ''  2. Brahma Sutras (nyaya prasthana): Logical analysis\<newline>'' @
     ascii ''  3. Bhagavad Gita (smriti prasthana): Practical application\<newline>'' @
     ascii ''\<newline>'' @ [0x2022] @
     ascii '' Major schools with their distinctive doctrines:\<newline>'' @
     ascii ''  - Advaita Vedanta (Shankara): Non-dualism; Brahman alone is real, world is illusory (maya)\<newline>'' @
     ascii ''  - Vishishtadvaita (Ramanuja): Qualified non-dualism; Brahman with attributes, souls are parts of Brahman\<newline>'' @
     ascii ''  - Dvaita (Madhva): Dualism; fundamental difference between Brahman, souls, and matter\<newline>'' @
     ascii ''  - Achintya Bheda Abheda (Chaitanya): Inconceivable simultaneous oneness and difference\<newline>'' @
     ascii ''  - Shuddhadvaita (Vallabha): Pure non-dualism; world as real transformation of Brahman\<newline>'' @
     ascii ''  - Dvaitadvaita (Nimbarka): Dualism-non-dualism; both identity and difference are real\<newline>'' @
     ascii ''\<newline>'' @ [0x2022] @ ascii '' Key concepts:\<newline>'' @
     ascii ''  - Brahman: Ultimate reality, both impersonal and personal aspects\<newline>'' @
     ascii ''  - Atman: Individual self, its nature and relationship to Brahman\<newline>'' @
     ascii ''  - Maya/Avidya: Cosmic illusion or ignorance that veils reality\<newline>'' @
     ascii ''  - Moksha: Liberation from samsara (cycle of rebirth)\<newline>'' @
     ascii ''  - Sadhana: Spiritual practices for realization\<newline>'' @
     ascii ''  - Jiva: The embodied soul\<newline>'' @ ascii ''\<newline>'' @
     ascii ''Quote directly from primary texts and commentaries with specific citations. Explain both theory and practical implications of these different philosophical perspectives.\<newline>''"

definition guidance_characters_krishna :: pystr where
  "guidance_characters_krishna =
     ascii ''\<newline>'' @
     ascii ''For questions about Lord Krishna, provide comprehensive coverage of this central Hindu deity:\<newline>'' @
     ascii ''\<newline>'' @ [0x2022] @ ascii '' Divine aspects:\<newline>'' @
     ascii ''  - As Svayam Bhagavan (the Supreme God himself) in Gaudiya Vaishnavism\<newline>'' @
     ascii ''  - As Purna Avatara (complete incarnation) of Vishnu in most traditions\<newline>'' @
     ascii ''  - Various forms: Bala Krishna (child), Govinda (cowherd), Parthasarathi (Arjuna'' @
     [0x27] @ ascii ''s charioteer)\<newline>'' @
     ascii ''  - Theological significance in different traditions\<newline>'' @
     ascii ''\<newline>'' @ [0x2022] @ ascii '' Life story from scriptures:\<newline>'' @
     ascii ''  - Birth and early miracles (defeating Putana, Kaliya, etc.)\<newline>'' @
     ascii ''  - Vrindavan lilas: Rasa lila, lifting Govardhana Hill, butter thief (Makhan Chor)\<newline>'' @
     ascii ''  - Mathura episodes: Defeating Kamsa, restoring parents\<newline>'' @
     ascii ''  - Dwaraka life: King, warrior, diplomat, family man\<newline>'' @
     ascii ''  - Role in Mahabharata: Counsel to Pandavas, revealing Bhagavad Gita\<newline>'' @
     ascii ''  - Final days as described in Mausala Parva\<newline>'' @ ascii ''\<newline>'' @
     [0x2022] @ ascii '' Philosophical teachings:\<newline>'' @ ascii ''  - Bhagavad Gita'' @
     [0x27] @ ascii ''s comprehensive spiritual guidance\<newline>'' @ ascii ''  - Uddhava Gita'' @
     [0x27] @ ascii ''s advanced instructions to his devotee\<newline>'' @
     ascii ''  - Concepts of bhakti (devotion) and prema (divine love)\<newline>'' @
     ascii ''\<newline>'' @ [0x2022] @ ascii '' Worship traditions:\<newline>'' @
     ascii ''  - Major temples: Vrindavan, Mathura, Dwaraka, Puri, Udupi\<newline>'' @
     ascii ''  - Devotional practices: Bhajan, kirtan, arati, archana\<newline>'' @
     ascii ''  - Major festivals: Janmashtami, Holi, Ratha Yatra\<newline>'' @
     ascii ''  - Sampradayas especially devoted to Krishna: Gaudiya, Pushti Marg, Nimbarka\<newline>'' @
     ascii ''\<newline>'' @
     ascii ''Quote directly from Bhagavata Purana, Mahabharata, Bhagavad Gita, and Harivamsa with precise references. Include traditional interpretations of Krishna'' @
     [0x27] @ ascii ''s actions and teachings.\<newline>''"

definition guidance_characters_shiva :: pystr where
  "guidance_characters_shiva =
     ascii ''\<newline>'' @
     ascii ''For questions about Lord Shiva, provide comprehensive coverage of this profound deity:\<newline>'' @
     ascii ''\<newline>'' @ [0x2022] @ ascii '' Divine aspects:\<newline>'' @
     ascii ''  - As Mahadeva (Great God), one of the Trimurti\<newline>'' @
     ascii ''  - As Adiyogi (first yogi) and Dakshinamurti (supreme teacher)\<newline>'' @
     ascii ''  - Various forms: Nataraja (cosmic dancer), Ardhanarishvara (half-woman), Bhairava (fierce)\<newline>'' @
     ascii ''  - Iconography: Third eye, crescent moon, Ganga, snake, tiger skin, trishula, damaru\<newline>'' @
     ascii ''\<newline>'' @ [0x2022] @ ascii '' Mythology and stories:\<newline>'' @
     ascii ''  - Origin stories from various Puranas\<newline>'' @
     ascii ''  - Marriage to Parvati after ascetic penance\<newline>'' @
     ascii ''  - Destruction of Tripura (three flying cities of demons)\<newline>'' @
     ascii ''  - Drinking of cosmic poison (Halahala) during Samudra Manthan\<newline>'' @
     ascii ''  - Birth of Kartikeya and Ganesha\<newline>'' @
     ascii ''  - Episodes with devotees: Markandeya, Kannappa\<newline>'' @ ascii ''\<newline>'' @
     [0x2022] @ ascii '' Philosophical significance:\<newline>'' @
     ascii ''  - Transcendence beyond forms and qualities (Nirguna)\<newline>'' @
     ascii ''  - Yogic principles embodied in form and activities\<newline>'' @
     ascii ''  - Five functions (Panchakritya): creation, preservation, dissolution, concealment, revelation\<newline>'' @
     ascii ''  - Relationship with shakti (cosmic energy)\<newline>'' @ ascii ''\<newline>'' @
     [0x2022] @ ascii '' Worship traditions:\<newline>'' @
     ascii ''  - Shaivism and its major schools: Kashmir Shaivism, Shaiva Siddhanta, Virashaivism\<newline>'' @
     ascii ''  - Sacred sites: Twelve Jyotirlingas, Kailash, Varanasi, Chidambaram\<newline>'' @
     ascii ''  - Key festivals: Mahashivaratri, Kartik Purnima\<newline>'' @
     ascii ''  - Worship methods: Abhishekam, Rudrabhisheka, Om Namah Shivaya japa\<newline>'' @
     ascii ''\<newline>'' @
     ascii ''Quote directly from Shiva Purana, Linga Purana, Yajurveda Sri Rudram, Shvetashvatara Upanishad, and Thirumandiram with precise references. Explain both esoteric and devotional aspects of Shiva worship.\<newline>''"

definition topic_guidance :: "(pystr, pystr) pydict" where
  "topic_guidance =
     [(ascii ''vedas:upanishads'', guidance_vedas_upanishads),
      (ascii ''vedas:rigveda'', guidance_vedas_rigveda),
      (ascii ''vedas:samaveda'', guidance_vedas_samaveda),
      (ascii ''puranas:bhagavata_purana'', guidance_puranas_bhagavata_purana),
      (ascii ''puranas:dashavatara'', guidance_puranas_dashavatara),
      (ascii ''epics:bhagavad_gita'', guidance_epics_bhagavad_gita),
      (ascii ''epics:ramayana'', guidance_epics_ramayana),
      (ascii ''knowledge:yoga'', guidance_knowledge_yoga),
      (ascii ''knowledge:vedanta'', guidance_knowledge_vedanta),
      (ascii ''characters:krishna'', guidance_characters_krishna),
      (ascii ''characters:shiva'', guidance_characters_shiva)]"

text \<open>
  \<^verbatim>\<open>find_best_topic_match\<close> has a dictionary \<^verbatim>\<open>topic_guidance\<close> of its own, with three
  entries; their texts are the same strings as in the dictionary above.
\<close>

definition best_match_topic_guidance :: "(pystr, pystr) pydict" where
  "best_match_topic_guidance =
     [(ascii ''vedas:rigveda'', guidance_vedas_rigveda),
      (ascii ''vedas:samaveda'', guidance_vedas_samaveda),
      (ascii ''characters:krishna'', guidance_characters_krishna)]"

text \<open>The alias table \<^verbatim>\<open>topic_mapping\<close> of \<^verbatim>\<open>find_best_topic_match\<close>.\<close>

definition topic_mapping :: "(pystr, pystr) pydict" where
  "topic_mapping =
     [(ascii ''rigveda_general'', ascii ''rigveda''), (ascii ''rigveda'', ascii ''rigveda''),
      (ascii ''rig_veda'', ascii ''rigveda''), (ascii ''rig'', ascii ''rigveda''),
      (ascii ''samaveda_general'', ascii ''samaveda''), (ascii ''samaveda'', ascii ''samaveda''),
      (ascii ''sama_veda'', ascii ''samaveda''), (ascii ''sama'', ascii ''samaveda''),
      (ascii ''yajurveda_general'', ascii ''yajurveda''),
      (ascii ''yajurveda'', ascii ''yajurveda''), (ascii ''yajur_veda'', ascii ''yajurveda''),
      (ascii ''yajur'', ascii ''yajurveda''),
      (ascii ''atharvaveda_general'', ascii ''atharvaveda''),
      (ascii ''atharvaveda'', ascii ''atharvaveda''),
      (ascii ''atharva_veda'', ascii ''atharvaveda''), (ascii ''atharva'', ascii ''atharvaveda''),
      (ascii ''upanishads'', ascii ''upanishads''), (ascii ''upanishad'', ascii ''upanishads''),
      (ascii ''bhagwat'', ascii ''bhagavata_purana''),
      (ascii ''bhagwat_puran'', ascii ''bhagavata_purana''),
      (ascii ''bhagavata'', ascii ''bhagavata_purana''),
      (ascii ''bhagavata_purana'', ascii ''bhagavata_purana''),
      (ascii ''srimad_bhagavatam'', ascii ''bhagavata_purana''),
      (ascii ''bhagavatam'', ascii ''bhagavata_purana''),
      (ascii ''dashavatara'', ascii ''dashavatara''), (ascii ''dasavatar'', ascii ''dashavatara''),
      (ascii ''dashavatar'', ascii ''dashavatara''), (ascii ''avataras'', ascii ''dashavatara''),
      (ascii ''avatars'', ascii ''dashavatara''),
      (ascii ''vishnu_avatars'', ascii ''dashavatara''), (ascii ''ramayana'', ascii ''ramayana''),
      (ascii ''ramayan'', ascii ''ramayana''), (ascii ''ram_charit_manas'', ascii ''ramayana''),
      (ascii ''mahabharata'', ascii ''mahabharata''),
      (ascii ''mahabharat'', ascii ''mahabharata''),
      (ascii ''bhagavad_gita'', ascii ''bhagavad_gita''),
      (ascii ''bhagavad'', ascii ''bhagavad_gita''),
      (ascii ''bhagwat_geeta'', ascii ''bhagavad_gita''),
      (ascii ''gita'', ascii ''bhagavad_gita''), (ascii ''bhagavadgita'', ascii ''bhagavad_gita''),
      (ascii ''yoga'', ascii ''yoga''), (ascii ''yoga_sutras'', ascii ''yoga''),
      (ascii ''patanjali'', ascii ''yoga''), (ascii ''hatha_yoga'', ascii ''yoga''),
      (ascii ''ashtanga_yoga'', ascii ''yoga''), (ascii ''vedanta'', ascii ''vedanta''),
      (ascii ''advaita'', ascii ''vedanta''), (ascii ''advaita_vedanta'', ascii ''vedanta''),
      (ascii ''dvaita'', ascii ''vedanta''), (ascii ''vishishtadvaita'', ascii ''vedanta''),
      (ascii ''krishna'', ascii ''krishna''), (ascii ''krshna'', ascii ''krishna''),
      (ascii ''shrikrishna'', ascii ''krishna''), (ascii ''shri_krishna'', ascii ''krishna''),
      (ascii ''krsna'', ascii ''krishna''), (ascii ''kanhaiya'', ascii ''krishna''),
      (ascii ''shiva'', ascii ''shiva''), (ascii ''mahadev'', ascii ''shiva''),
      (ascii ''rudra'', ascii ''shiva''), (ascii ''bholenath'', ascii ''shiva''),
      (ascii ''lord_shiva'', ascii ''shiva'')]"

text \<open>
  \<^verbatim>\<open>find_best_topic_match(category, base_topic, full_topic)\<close>: the alias table gives a
  canonical topic, and the guidance of \<^verbatim>\<open>category:canonical_topic\<close> is looked up in the
  function's own three-entry dictionary. The result \<^verbatim>\<open>None\<close> of Python is \<open>None\<close>. (The
  statements after the final \<^verbatim>\<open>return None\<close> in the source are unreachable.)
\<close>

definition find_best_topic_match :: "pystr \<Rightarrow> pystr \<Rightarrow> pystr \<Rightarrow> pystr option" where
  "find_best_topic_match category base_topic full_topic =
     (let canonical_topic =
            (if dict_has topic_mapping base_topic then map_of topic_mapping base_topic
             else if dict_has topic_mapping full_topic then map_of topic_mapping full_topic
             else None)
      in case canonical_topic of
           None \<Rightarrow> None
         | Some canonical \<Rightarrow>
             if canonical \<noteq> [] then
               (let lookup_key = category @ ascii '':'' @ canonical
                in case map_of best_match_topic_guidance lookup_key of
                     Some guidance \<Rightarrow>
                       Some (ascii ''SPECIALIZED GUIDANCE FOR THIS TOPIC ('' @ canonical @
                             ascii ''):\<newline>'' @ guidance)
                   | None \<Rightarrow> None)
             else None)"

text \<open>
  \<^verbatim>\<open>get_topic_specific_guidance(category, topic)\<close>. \<open>topic_part\<close> is
  \<^verbatim>\<open>key.split(':')[1]\<close>, which raises \<^verbatim>\<open>IndexError\<close> on a key without a colon;
  \<open>partial_match\<close> is the loop over \<^verbatim>\<open>topic_guidance.items()\<close> with the final
  \<^verbatim>\<open>return ""\<close>.
\<close>

definition normalize_topic :: "runtime \<Rightarrow> pystr \<Rightarrow> pystr" where
  "normalize_topic R topic =
     py_replace (ascii ''-'') (ascii ''_'') (py_replace (ascii '' '') (ascii ''_'') (lower R topic))"

definition base_topic_of :: "pystr \<Rightarrow> pystr" where
  "base_topic_of normalized_topic =
     (if contains (ascii ''_general'') normalized_topic
      then py_replace (ascii ''_general'') [] normalized_topic
      else normalized_topic)"

definition topic_part :: "pystr \<Rightarrow> py_error + pystr" where
  "topic_part key =
     (case split_at (\<lambda>c. c = 58) key of
        a # b # rest \<Rightarrow> Inr b
      | _ \<Rightarrow> Inl IndexError)"

fun partial_match :: "(pystr, pystr) pydict \<Rightarrow> pystr \<Rightarrow> py_error + pystr" where
  "partial_match [] normalized_topic = Inr []"
| "partial_match ((key, guidance) # rest) normalized_topic =
     (case topic_part key of
        Inl e \<Rightarrow> Inl e
      | Inr tp \<Rightarrow>
          if contains tp normalized_topic \<or> contains normalized_topic tp
          then Inr (ascii ''RELATED TOPIC GUIDANCE:\<newline>'' @ guidance)
          else partial_match rest normalized_topic)"

definition table_lookup :: "pystr \<Rightarrow> pystr \<Rightarrow> py_error + pystr" where
  "table_lookup category normalized_topic =
     (let lookup_key = category @ ascii '':'' @ normalized_topic
      in case map_of topic_guidance lookup_key of
           Some guidance \<Rightarrow>
             Inr (ascii ''SPECIALIZED GUIDANCE FOR THIS SPECIFIC TOPIC:\<newline>'' @ guidance)
         | None \<Rightarrow> partial_match topic_guidance normalized_topic)"

definition get_topic_specific_guidance :: "runtime \<Rightarrow> pystr \<Rightarrow> pystr \<Rightarrow> py_error + pystr" where
  "get_topic_specific_guidance R category topic =
     (let normalized_topic = normalize_topic R topic;
          base_topic = base_topic_of normalized_topic
      in case find_best_topic_match category base_topic normalized_topic of
           Some best_match \<Rightarrow>
             if best_match \<noteq> [] then Inr best_match
             else table_lookup category normalized_topic
         | None \<Rightarrow> table_lookup category normalized_topic)"

text \<open>
  \<^verbatim>\<open>build_system_prompt(category, topic, is_short_query)\<close>. It has no handler of its own,
  so an exception of the guidance lookup would leave it.
\<close>

definition build_system_prompt :: "runtime \<Rightarrow> pystr \<Rightarrow> pystr \<Rightarrow> bool \<Rightarrow> py_error + pystr" where
  "build_system_prompt R category topic is_short_query =
     (let personality = dict_get category_personalities category default_personality;
          prompt = base_prompt personality @
            (if is_short_query then short_query_instruction personality
             else detailed_query_instruction)
      in case get_topic_specific_guidance R category topic of
           Inl e \<Rightarrow> Inl e
         | Inr guidance \<Rightarrow>
             if guidance \<noteq> [] then Inr (prompt @ ascii ''\<newline>'' @ ascii ''\<newline>'' @ guidance)
             else Inr prompt)"

section \<open>ai\_providers.py: the query classifier\<close>

text \<open>The list \<^verbatim>\<open>complex_indicators\<close> of \<^verbatim>\<open>analyze_content\<close>, in source order.\<close>

definition complex_indicators :: "pystr list" where
  "complex_indicators =
     map ascii
     [''philosophy'', ''metaphysics'', ''consciousness'', ''reality'', ''existence'',
      ''brahman'', ''atman'', ''moksha'', ''dharma'', ''karma'', ''reincarnation'',
      ''enlightenment'', ''liberation'', ''advaita'', ''dvaita'', ''vishishtadvaita'',
      ''samkhya'', ''vedanta'', ''nyaya'', ''vaisheshika'', ''mimamsa'', ''monism'',
      ''dualism'', ''non-dualism'', ''epistemology'', ''ontology'', ''cosmology'',
      ''eschatology'', ''purusharthas'', ''purusha'', ''prakriti'', ''gunas'', ''sattva'',
      ''rajas'', ''tamas'', ''samsara'', ''nirvana'', ''yoga'', ''meditation'',
      ''samadhi'', ''chakras'', ''kundalini'', ''tantra'', ''mantra'', ''yantra'',
      ''yagna'', ''sacrifice'', ''ritual'', ''sadhana'', ''jnana'', ''bhakti'',
      ''karma yoga'', ''raja yoga'', ''spiritual'', ''transcendental'']"

text \<open>
  \<^verbatim>\<open>analyze_content(text, system_text)\<close>, the local function of
  \<^verbatim>\<open>generate_mistral_response\<close>.

  \<open>first_category\<close> is the loop with \<^verbatim>\<open>break\<close> over the five category names;
  \<open>search_topic\<close> is \<^verbatim>\<open>re.search(r'focusing specifically on (\w+)', system_text)\<close>
  with its group 1: the leftmost place where the literal text is followed by a word
  character, and the longest run of word characters there. A word character is an ASCII
  letter, digit or underscore, or a non-ASCII code point that the interpreter's table
  calls alphanumeric.
\<close>

definition category_names :: "pystr list" where
  "category_names = map ascii [''vedas'', ''puranas'', ''epics'', ''knowledge'', ''characters'']"

fun first_category :: "pystr list \<Rightarrow> pystr \<Rightarrow> pystr" where
  "first_category [] lowered = ascii ''general''"
| "first_category (cat # cats) lowered =
     (if contains cat lowered then cat else first_category cats lowered)"

definition is_word_char :: "runtime \<Rightarrow> nat \<Rightarrow> bool" where
  "is_word_char R c \<longleftrightarrow>
     (97 \<le> c \<and> c \<le> 122) \<or> (65 \<le> c \<and> c \<le> 90) \<or> (48 \<le> c \<and> c \<le> 57) \<or> c = 95 \<or>
     (128 \<le> c \<and> uc_isalnum R c)"

fun search_topic :: "runtime \<Rightarrow> pystr \<Rightarrow> pystr option" where
  "search_topic R [] = None"
| "search_topic R (c # cs) =
     (let word = takeWhile (is_word_char R)
                   (drop (length (ascii ''focusing specifically on '')) (c # cs))
      in if startswith (ascii ''focusing specifically on '') (c # cs) \<and> word \<noteq> [] then Some word
         else search_topic R cs)"

text \<open>
  The average sentence length is a Python float, the quotient of two integers; it is
  only compared with 15 and 8, and the model keeps the exact quotient.
\<close>

definition sentences :: "pystr \<Rightarrow> pystr list" where
  "sentences text =
     filter (\<lambda>s. s \<noteq> []) (split_at (\<lambda>c. c \<in> set (ascii ''.!?'')) text)"

definition avg_sentence_length :: "runtime \<Rightarrow> pystr \<Rightarrow> rat" where
  "avg_sentence_length R text =
     of_nat (sum_list (map (\<lambda>s. length (py_split R s)) (sentences text))) /
     of_nat (max 1 (length (sentences text)))"

text \<open>
  The loop over \<^verbatim>\<open>complex_indicators\<close>: every term found in the lowered message or the
  lowered system prompt adds one, and the loop stops once the score has reached 3.
\<close>

fun count_indicators :: "pystr list \<Rightarrow> pystr \<Rightarrow> pystr \<Rightarrow> nat \<Rightarrow> nat" where
  "count_indicators [] text_lower system_lower complexity_score = complexity_score"
| "count_indicators (term # terms) text_lower system_lower complexity_score =
     (if contains term text_lower \<or> contains term system_lower then
        (if complexity_score + 1 \<ge> 3 then complexity_score + 1
         else count_indicators terms text_lower system_lower (complexity_score + 1))
      else count_indicators terms text_lower system_lower complexity_score)"

record content_analysis =
  ca_category :: pystr
  ca_topic :: pystr
  ca_complexity :: nat
  ca_has_questions :: bool
  ca_is_multi_question :: bool
  ca_word_count :: nat
  ca_avg_sentence_length :: rat

definition analyze_content :: "runtime \<Rightarrow> pystr \<Rightarrow> pystr \<Rightarrow> content_analysis" where
  "analyze_content R text system_text =
     (let extracted_category = first_category category_names (lower R system_text);
          extracted_topic =
            (case search_topic R system_text of None \<Rightarrow> ascii ''general'' | Some word \<Rightarrow> word);
          avg = avg_sentence_length R text;
          score0 = (if avg > 15 then 2 else if avg > 8 then 1 else 0);
          score1 = count_indicators complex_indicators (lower R text) (lower R system_text) score0;
          word_count = length (py_split R text);
          score2 = (if word_count > 30 then score1 + 1 else score1);
          query_complexity = min 5 (score2 + 1);
          question_count = count_list text 63
      in \<lparr>ca_category = extracted_category,
          ca_topic = extracted_topic,
          ca_complexity = query_complexity,
          ca_has_questions = (question_count > 0),
          ca_is_multi_question = (question_count > 1),
          ca_word_count = word_count,
          ca_avg_sentence_length = avg\<rparr>)"

text \<open>
  The complexity score in the words of the specification: base 1, one point for an
  average sentence length over a threshold, one for a message length over a threshold,
  one if a domain keyword is present, one for more than one question mark, capped at 5.
  The two thresholds are parameters.
\<close>

definition keyword_present :: "runtime \<Rightarrow> pystr \<Rightarrow> pystr \<Rightarrow> bool" where
  "keyword_present R text system_text \<longleftrightarrow>
     (\<exists>term \<in> set complex_indicators.
        contains term (lower R text) \<or> contains term (lower R system_text))"

definition spec_complexity_score :: "runtime \<Rightarrow> rat \<Rightarrow> nat \<Rightarrow> pystr \<Rightarrow> pystr \<Rightarrow> nat" where
  "spec_complexity_score R sentence_threshold length_threshold text system_text =
     min 5 (1 + (if avg_sentence_length R text > sentence_threshold then 1 else 0)
              + (if length (py_split R text) > length_threshold then 1 else 0)
              + (if keyword_present R text system_text then 1 else 0)
              + (if count_list text 63 > 1 then 1 else 0))"

text \<open>The parts of the score as the code computes it.\<close>

definition sentence_points :: "runtime \<Rightarrow> pystr \<Rightarrow> nat" where
  "sentence_points R text =
     (if avg_sentence_length R text > 15 then 2
      else if avg_sentence_length R text > 8 then 1 else 0)"

definition keywords_found :: "runtime \<Rightarrow> pystr \<Rightarrow> pystr \<Rightarrow> nat" where
  "keywords_found R text system_text =
     length (filter (\<lambda>term. contains term (lower R text) \<or> contains term (lower R system_text))
       complex_indicators)"

definition length_points :: "runtime \<Rightarrow> pystr \<Rightarrow> nat" where
  "length_points R text = (if length (py_split R text) > 30 then 1 else 0)"

section \<open>ai\_providers.py: the provider client\<close>

text \<open>
  The canned replies \<^verbatim>\<open>category_fallbacks\<close> of \<^verbatim>\<open>generate_mistral_response\<close> and the
  default pair of an unrecognised category.
\<close>

record fallback_texts =
  fb_short :: pystr
  fb_long :: pystr

definition fallbacks_vedas :: fallback_texts where
  "fallbacks_vedas =
    \<lparr>fb_short =
      [0x950] @ ascii '' '' @ [0x936, 0x93E, 0x902, 0x924, 0x93F] @ ascii '': '' @
      [0x936, 0x93E, 0x902, 0x924, 0x93F] @ ascii '': '' @ [0x936, 0x93E, 0x902, 0x924, 0x93F] @
      ascii '': '' @ [0x1F549, 0xFE0F] @ ascii '' Namaste! I'' @ [0x27] @
      ascii ''m having a brief technical issue. Please try again shortly.'',
    fb_long =
      [0x950] @ ascii '' '' @ [0x936, 0x93E, 0x902, 0x924, 0x93F] @ ascii '': '' @
      [0x936, 0x93E, 0x902, 0x924, 0x93F] @ ascii '': '' @ [0x936, 0x93E, 0x902, 0x924, 0x93F] @
      ascii '': '' @ [0x1F549, 0xFE0F] @ ascii '' I apologize, but I'' @ [0x27] @
      ascii ''m currently experiencing technical difficulties. As the Rigveda teaches us, '' @
      [0x27, 0x927, 0x940, 0x930, 0x938, 0x94D, 0x92F] @ ascii '' '' @
      [0x927, 0x948, 0x930, 0x94D, 0x92F, 0x92E, 0x94D, 0x27] @
      ascii '' (Patience is the virtue of the wise). Please try again in a moment, or ask another question.''\<rparr>"

definition fallbacks_puranas :: fallback_texts where
  "fallbacks_puranas =
    \<lparr>fb_short =
      [0x928, 0x92E, 0x94B] @ ascii '' '' @
      [0x928, 0x93E, 0x930, 0x93E, 0x92F, 0x923, 0x93E, 0x92F] @ ascii '' '' @ [0x1F64F] @
      ascii '' Namaste! I'' @ [0x27] @
      ascii ''m having a brief technical issue. Please try again shortly.'',
    fb_long =
      [0x928, 0x92E, 0x94B] @ ascii '' '' @
      [0x928, 0x93E, 0x930, 0x93E, 0x92F, 0x923, 0x93E, 0x92F] @ ascii '' '' @ [0x1F64F] @
      ascii '' I apologize, but I'' @ [0x27] @
      ascii ''m currently experiencing technical difficulties. As the wise Vyasa teaches in the Puranas, challenges are temporary while knowledge is eternal. Please try again in a moment, or ask another question.''\<rparr>"

definition fallbacks_epics :: fallback_texts where
  "fallbacks_epics =
    \<lparr>fb_short =
      [0x927, 0x930, 0x94D, 0x92E, 0x94B] @ ascii '' '' @
      [0x930, 0x915, 0x94D, 0x937, 0x924, 0x93F] @ ascii '' '' @
      [0x930, 0x915, 0x94D, 0x937, 0x93F, 0x924, 0x903] @ ascii '' '' @ [0x2728] @
      ascii '' Namaste! I'' @ [0x27] @
      ascii ''m having a brief technical issue. Please try again shortly.'',
    fb_long =
      [0x927, 0x930, 0x94D, 0x92E, 0x94B] @ ascii '' '' @
      [0x930, 0x915, 0x94D, 0x937, 0x924, 0x93F] @ ascii '' '' @
      [0x930, 0x915, 0x94D, 0x937, 0x93F, 0x924, 0x903] @ ascii '' '' @ [0x2728] @
      ascii '' I apologize, but I'' @ [0x27] @
      ascii ''m currently experiencing technical difficulties. As Lord Krishna says in the Bhagavad Gita, patience leads to perfection. Please try again in a moment, or ask another question.''\<rparr>"

definition fallbacks_knowledge :: fallback_texts where
  "fallbacks_knowledge =
    \<lparr>fb_short =
      [0x935, 0x93F, 0x926, 0x94D, 0x92F, 0x93E] @ ascii '' '' @
      [0x926, 0x926, 0x93E, 0x924, 0x93F] @ ascii '' '' @
      [0x935, 0x93F, 0x928, 0x92F, 0x92E, 0x94D] @ ascii '' '' @ [0x1F4DA] @ ascii '' Namaste! I'' @
      [0x27] @ ascii ''m having a brief technical issue. Please try again shortly.'',
    fb_long =
      [0x935, 0x93F, 0x926, 0x94D, 0x92F, 0x93E] @ ascii '' '' @
      [0x926, 0x926, 0x93E, 0x924, 0x93F] @ ascii '' '' @
      [0x935, 0x93F, 0x928, 0x92F, 0x92E, 0x94D] @ ascii '' '' @ [0x1F4DA] @
      ascii '' I apologize, but I'' @ [0x27] @
      ascii ''m currently experiencing technical difficulties. The ancient texts teach us that obstacles are opportunities for growth. Please try again in a moment, or ask another question.''\<rparr>"

definition fallbacks_characters :: fallback_texts where
  "fallbacks_characters =
    \<lparr>fb_short =
      [0x939, 0x930, 0x947] @ ascii '' '' @ [0x915, 0x943, 0x937, 0x94D, 0x923] @ ascii '' '' @
      [0x939, 0x930, 0x947] @ ascii '' '' @ [0x930, 0x93E, 0x92E] @ ascii '' '' @ [0x1F4AB] @
      ascii '' Namaste! I'' @ [0x27] @
      ascii ''m having a brief technical issue. Please try again shortly.'',
    fb_long =
      [0x939, 0x930, 0x947] @ ascii '' '' @ [0x915, 0x943, 0x937, 0x94D, 0x923] @ ascii '' '' @
      [0x939, 0x930, 0x947] @ ascii '' '' @ [0x930, 0x93E, 0x92E] @ ascii '' '' @ [0x1F4AB] @
      ascii '' I apologize, but I'' @ [0x27] @
      ascii ''m currently experiencing technical difficulties. As devotees say, '' @
      [0x27, 0x915, 0x943, 0x937, 0x94D, 0x923] @ ascii '' '' @ [0x915, 0x943, 0x92A, 0x93E] @
      ascii '' '' @ [0x915, 0x930, 0x947, 0x902, 0x917, 0x947, 0x27] @
      ascii '' (Krishna will show his grace). Please try again in a moment, or ask another question.''\<rparr>"

definition default_fallbacks :: fallback_texts where
  "default_fallbacks =
    \<lparr>fb_short =
      [0x91C, 0x92F] @ ascii '' '' @ [0x936, 0x94D, 0x930, 0x940] @ ascii '' '' @
      [0x915, 0x943, 0x937, 0x94D, 0x923] @ ascii '' '' @ [0x1F64F] @ ascii '' Namaste! I'' @
      [0x27] @ ascii ''m having a brief technical issue. Please try again shortly.'',
    fb_long =
      [0x91C, 0x92F] @ ascii '' '' @ [0x936, 0x94D, 0x930, 0x940] @ ascii '' '' @
      [0x915, 0x943, 0x937, 0x94D, 0x923] @ ascii '' '' @ [0x1F64F] @
      ascii '' I apologize, but I'' @ [0x27] @
      ascii ''m currently experiencing technical difficulties. Please try again in a moment, or ask another question. Om Shanti.''\<rparr>"

definition category_fallbacks :: "(pystr, fallback_texts) pydict" where
  "category_fallbacks =
     [(ascii ''vedas'', fallbacks_vedas),
      (ascii ''puranas'', fallbacks_puranas),
      (ascii ''epics'', fallbacks_epics),
      (ascii ''knowledge'', fallbacks_knowledge),
      (ascii ''characters'', fallbacks_characters)]"

text \<open>
  The adaptive selection of model and parameters in \<^verbatim>\<open>generate_mistral_response\<close>. The
  float constants are kept as the decimal fractions written in the source.
\<close>

record model_params =
  mp_model :: pystr
  mp_max_tokens :: nat
  mp_temperature :: rat
  mp_top_p :: rat
  mp_max_retries :: nat
  mp_backoff_factor :: rat
  mp_timeout :: nat

definition select_params :: "bool \<Rightarrow> content_analysis \<Rightarrow> model_params" where
  "select_params is_short_query content_analysis =
     (if is_short_query then
        \<lparr>mp_model = ascii ''mistral-small-latest'', mp_max_tokens = 250, mp_temperature = 67 / 100,
         mp_top_p = 82 / 100, mp_max_retries = 2, mp_backoff_factor = 15 / 10, mp_timeout = 15\<rparr>
      else
        (let complexity = ca_complexity content_analysis;
             cat = ca_category content_analysis;
             is_multi_question = ca_is_multi_question content_analysis
         in if (complexity \<ge> 4 \<and> cat \<in> set (map ascii [''vedas'', ''knowledge''])) \<or>
               is_multi_question then
              \<lparr>mp_model = ascii ''mistral-large-latest'', mp_max_tokens = 1500,
               mp_temperature = 73 / 100, mp_top_p = 91 / 100, mp_max_retries = 3,
               mp_backoff_factor = 2, mp_timeout = 35\<rparr>
            else if complexity \<ge> 3 \<or> cat \<in> set (map ascii [''vedas'', ''knowledge'']) then
              \<lparr>mp_model = ascii ''mistral-medium-latest'', mp_max_tokens = 1200,
               mp_temperature = 70 / 100, mp_top_p = 88 / 100, mp_max_retries = 3,
               mp_backoff_factor = 175 / 100, mp_timeout = 30\<rparr>
            else
              \<lparr>mp_model = ascii ''mistral-small-latest'', mp_max_tokens = 800,
               mp_temperature = 68 / 100, mp_top_p = 85 / 100, mp_max_retries = 2,
               mp_backoff_factor = 15 / 10, mp_timeout = 25\<rparr>))"

subsection \<open>The provider as the client sees it\<close>

text \<open>
  What one \<^verbatim>\<open>requests.post\<close> call does, classified by the handler that receives it:
  a \<^verbatim>\<open>Timeout\<close>, a \<^verbatim>\<open>ConnectionError\<close>, another \<^verbatim>\<open>RequestException\<close> (with the status code
  of its \<^verbatim>\<open>response\<close> attribute, if it has one), an exception that is no
  \<^verbatim>\<open>RequestException\<close>, or a response. Of a response the client reads the status code,
  the \<^verbatim>\<open>Retry-After\<close> header and \<^verbatim>\<open>response.json()\<close>, which yields a value or raises:
  the decode error of the \<^verbatim>\<open>requests\<close> library is a \<^verbatim>\<open>RequestException\<close> without a
  response in recent versions and a plain \<^verbatim>\<open>ValueError\<close> in older ones.

  The provider is a function from the number of requests already sent in this call to
  the outcome of the next one; it stands for any dependence on the payload.
\<close>

datatype json_result = JsonValue pyval | JsonRequestException | JsonValueError

record http_response =
  status_code :: int
  retry_after_header :: "pystr option"
  json :: json_result

datatype post_outcome =
    PostTimeout
  | PostConnectionError
  | PostRequestException "int option"
  | PostRaises py_error
  | PostResponse http_response

type_synonym provider = "nat \<Rightarrow> post_outcome"

text \<open>
  \<^verbatim>\<open>int(response.headers.get('Retry-After', backoff_factor ** retry_count))\<close>: the header
  text parsed as an integer, or the truncated default.
\<close>

definition retry_after_of :: "runtime \<Rightarrow> http_response \<Rightarrow> rat \<Rightarrow> py_error + int" where
  "retry_after_of R r dflt =
     (case retry_after_header r of
        Some header \<Rightarrow> py_int_of_str R header
      | None \<Rightarrow> Inr (py_int_of_float dflt))"

text \<open>
  Subscripts on a decoded JSON value: \<^verbatim>\<open>v["key"]\<close> and \<^verbatim>\<open>v[0]\<close>. The keys of a JSON
  object are strings, so \<^verbatim>\<open>v[0]\<close> on an object is a \<^verbatim>\<open>KeyError\<close>; on a string it is the
  first code point.
\<close>

definition subscript_key :: "pyval \<Rightarrow> pystr \<Rightarrow> py_error + pyval" where
  "subscript_key v k =
     (case v of
        PDict d \<Rightarrow> (case map_of d k of Some x \<Rightarrow> Inr x | None \<Rightarrow> Inl KeyError)
      | _ \<Rightarrow> Inl TypeError)"

definition subscript_zero :: "pyval \<Rightarrow> py_error + pyval" where
  "subscript_zero v =
     (case v of
        PList xs \<Rightarrow> (case xs of [] \<Rightarrow> Inl IndexError | x # rest \<Rightarrow> Inr x)
      | PStr s \<Rightarrow> (case s of [] \<Rightarrow> Inl IndexError | c # cs \<Rightarrow> Inr (PStr [c]))
      | PDict d \<Rightarrow> Inl KeyError
      | _ \<Rightarrow> Inl TypeError)"

text \<open>\<^verbatim>\<open>result["choices"][0]["message"]["content"]\<close>\<close>

definition message_content :: "pyval \<Rightarrow> py_error + pyval" where
  "message_content result =
     (case subscript_key result (ascii ''choices'') of
        Inl e \<Rightarrow> Inl e
      | Inr choices \<Rightarrow>
          (case subscript_zero choices of
             Inl e \<Rightarrow> Inl e
           | Inr choice \<Rightarrow>
               (case subscript_key choice (ascii ''message'') of
                  Inl e \<Rightarrow> Inl e
                | Inr msg \<Rightarrow> subscript_key msg (ascii ''content''))))"

text \<open>
  The logging of the token usage, on a result that has passed \<^verbatim>\<open>result["choices"]\<close> and so
  is a dictionary: when it has a \<^verbatim>\<open>"usage"\<close> entry, \<^verbatim>\<open>usage.get(...)\<close> is called on it, which
  raises \<^verbatim>\<open>AttributeError\<close> unless the entry is a dictionary itself. \<open>token_usage\<close> is
  \<^verbatim>\<open>result.get("usage", {})\<close>.
\<close>

definition usage_logged :: "pyval \<Rightarrow> py_error option" where
  "usage_logged result =
     (case result of
        PDict d \<Rightarrow>
          (case map_of d (ascii ''usage'') of
             None \<Rightarrow> None
           | Some usage \<Rightarrow> (case usage of PDict u \<Rightarrow> None | _ \<Rightarrow> Some AttributeError))
      | _ \<Rightarrow> None)"

definition token_usage :: "pyval \<Rightarrow> pyval" where
  "token_usage result =
     (case result of PDict d \<Rightarrow> dict_get d (ascii ''usage'') (PDict []) | _ \<Rightarrow> PDict [])"

type_synonym response_dict = "(pystr, pyval) pydict"

definition success_response :: "pyval \<Rightarrow> model_params \<Rightarrow> nat \<Rightarrow> pyval \<Rightarrow> response_dict" where
  "success_response content params complexity usage =
     [(ascii ''response'', content),
      (ascii ''model'', PStr (mp_model params)),
      (ascii ''complexity_score'', PInt (int complexity)),
      (ascii ''token_usage'', usage)]"

subsection \<open>The retry loop\<close>

text \<open>
  The \<^verbatim>\<open>while retry_count < max_retries\<close> loop. It ends by returning the success
  dictionary, by leaving the loop (retries exhausted, or \<^verbatim>\<open>break\<close> after an error that
  is not retried), or by an exception that none of the three handlers catches: one
  raised by \<^verbatim>\<open>requests.post\<close> that is no \<^verbatim>\<open>RequestException\<close>, the \<^verbatim>\<open>ValueError\<close> of
  \<^verbatim>\<open>int()\<close> on the \<^verbatim>\<open>Retry-After\<close> header, the \<^verbatim>\<open>OverflowError\<close> or \<^verbatim>\<open>ValueError\<close> of
  \<^verbatim>\<open>time.sleep\<close>, the \<^verbatim>\<open>ValueError\<close> of \<^verbatim>\<open>response.json()\<close>, the errors of the subscripts
  on the body, and the \<^verbatim>\<open>AttributeError\<close> of the usage logging. The result records how
  the loop ended together with \<^verbatim>\<open>last_error\<close>, \<^verbatim>\<open>retry_count\<close>, the arguments of the
  completed \<^verbatim>\<open>time.sleep\<close> calls in order, and the number of requests sent. The backoff
  before a retry is a small positive float, on which \<^verbatim>\<open>time.sleep\<close> does not fail.
\<close>

datatype loop_exit = Returned response_dict | LeftLoop | Raised py_error

record loop_result =
  lr_exit :: loop_exit
  lr_last_error :: "pystr option"
  lr_retry_count :: nat
  lr_sleeps :: "rat list"
  lr_sent :: nat

function retry_loop ::
  "runtime \<Rightarrow> provider \<Rightarrow> model_params \<Rightarrow> nat \<Rightarrow> nat \<Rightarrow> pystr option \<Rightarrow> rat list \<Rightarrow> nat
     \<Rightarrow> loop_result" where
  "retry_loop R post params complexity retry_count last_error sleeps sent =
     (if retry_count < mp_max_retries params then
        (let sleeps1 = (if retry_count > 0
                        then sleeps @ [mp_backoff_factor params ^ retry_count] else sleeps)
         in case post sent of
              PostTimeout \<Rightarrow>
                retry_loop R post params complexity (retry_count + 1) (Some (ascii ''timeout''))
                  sleeps1 (sent + 1)
            | PostConnectionError \<Rightarrow>
                retry_loop R post params complexity (retry_count + 1) (Some (ascii ''connection''))
                  sleeps1 (sent + 1)
            | PostRequestException status \<Rightarrow>
                (case status of
                   Some code \<Rightarrow>
                     if code \<ge> 500 \<or> code = 429 then
                       retry_loop R post params complexity (retry_count + 1)
                         (Some (ascii ''http_'' @ str_int code)) sleeps1 (sent + 1)
                     else
                       \<lparr>lr_exit = LeftLoop, lr_last_error = Some (ascii ''api_error''),
                        lr_retry_count = retry_count, lr_sleeps = sleeps1, lr_sent = sent + 1\<rparr>
                 | None \<Rightarrow>
                     \<lparr>lr_exit = LeftLoop, lr_last_error = Some (ascii ''api_error''),
                      lr_retry_count = retry_count, lr_sleeps = sleeps1, lr_sent = sent + 1\<rparr>)
            | PostRaises e \<Rightarrow>
                \<lparr>lr_exit = Raised e, lr_last_error = last_error,
                 lr_retry_count = retry_count, lr_sleeps = sleeps1, lr_sent = sent + 1\<rparr>
            | PostResponse r \<Rightarrow>
                if status_code r = 429 then
                  (case retry_after_of R r (mp_backoff_factor params ^ retry_count) of
                     Inl e \<Rightarrow>
                       \<lparr>lr_exit = Raised e, lr_last_error = last_error,
                        lr_retry_count = retry_count, lr_sleeps = sleeps1, lr_sent = sent + 1\<rparr>
                   | Inr retry_after \<Rightarrow>
                       (case sleep_error retry_after of
                          Some e \<Rightarrow>
                            \<lparr>lr_exit = Raised e, lr_last_error = last_error,
                             lr_retry_count = retry_count, lr_sleeps = sleeps1,
                             lr_sent = sent + 1\<rparr>
                        | None \<Rightarrow>
                            retry_loop R post params complexity (retry_count + 1) last_error
                              (sleeps1 @ [of_int retry_after]) (sent + 1)))
                else if 400 \<le> status_code r \<and> status_code r < 600 then
                  (if status_code r \<ge> 500 \<or> status_code r = 429 then
                     retry_loop R post params complexity (retry_count + 1)
                       (Some (ascii ''http_'' @ str_int (status_code r))) sleeps1 (sent + 1)
                   else
                     \<lparr>lr_exit = LeftLoop, lr_last_error = Some (ascii ''api_error''),
                      lr_retry_count = retry_count, lr_sleeps = sleeps1, lr_sent = sent + 1\<rparr>)
                else
                  (case json r of
                     JsonRequestException \<Rightarrow>
                       \<lparr>lr_exit = LeftLoop, lr_last_error = Some (ascii ''api_error''),
                        lr_retry_count = retry_count, lr_sleeps = sleeps1, lr_sent = sent + 1\<rparr>
                   | JsonValueError \<Rightarrow>
                       \<lparr>lr_exit = Raised ValueError, lr_last_error = last_error,
                        lr_retry_count = retry_count, lr_sleeps = sleeps1, lr_sent = sent + 1\<rparr>
                   | JsonValue result \<Rightarrow>
                       (case message_content result of
                          Inl e \<Rightarrow>
                            \<lparr>lr_exit = Raised e, lr_last_error = last_error,
                             lr_retry_count = retry_count, lr_sleeps = sleeps1,
                             lr_sent = sent + 1\<rparr>
                        | Inr content \<Rightarrow>
                            (case usage_logged result of
                               Some e \<Rightarrow>
                                 \<lparr>lr_exit = Raised e, lr_last_error = last_error,
                                  lr_retry_count = retry_count, lr_sleeps = sleeps1,
                                  lr_sent = sent + 1\<rparr>
                             | None \<Rightarrow>
                                 \<lparr>lr_exit = Returned
                                    (success_response content params complexity
                                       (token_usage result)),
                                  lr_last_error = last_error, lr_retry_count = retry_count,
                                  lr_sleeps = sleeps1, lr_sent = sent + 1\<rparr>))))
      else
        \<lparr>lr_exit = LeftLoop, lr_last_error = last_error, lr_retry_count = retry_count,
         lr_sleeps = sleeps, lr_sent = sent\<rparr>)"
  by pat_completeness auto
termination
  by (relation "measure (\<lambda>(R, post, params, complexity, retry_count, last_error, sleeps, sent).
        mp_max_retries params - retry_count)") auto

declare retry_loop.simps [simp del]

subsection \<open>The program state and \<^verbatim>\<open>generate_mistral_response\<close>\<close>

text \<open>
  The state that the functions change: the response cache, the analytics store, and, to
  be able to speak about them, the log of all \<^verbatim>\<open>time.sleep\<close> arguments and the number of
  HTTP requests sent so far.
\<close>

record state =
  st_cache :: response_cache
  st_analytics :: analytics_store
  st_sleeps :: "rat list"
  st_posts :: nat

definition fallback_response :: "runtime \<Rightarrow> pystr \<Rightarrow> bool \<Rightarrow> pystr" where
  "fallback_response R system_prompt is_short_query =
     (let current_category = first_category category_names (lower R system_prompt);
          fallbacks = dict_get category_fallbacks current_category default_fallbacks
      in if is_short_query then fb_short fallbacks else fb_long fallbacks)"

definition error_value :: "pystr option \<Rightarrow> pyval" where
  "error_value last_error = (case last_error of None \<Rightarrow> PNone | Some tag \<Rightarrow> PStr tag)"

definition failure_response ::
  "runtime \<Rightarrow> pystr \<Rightarrow> bool \<Rightarrow> pystr option \<Rightarrow> model_params \<Rightarrow> nat \<Rightarrow> response_dict" where
  "failure_response R system_prompt is_short_query last_error params complexity =
     [(ascii ''response'', PStr (fallback_response R system_prompt is_short_query)),
      (ascii ''error'', error_value last_error),
      (ascii ''model'', PStr (mp_model params)),
      (ascii ''complexity_score'', PInt (int complexity))]"

definition generate_mistral_response ::
  "runtime \<Rightarrow> provider \<Rightarrow> pystr \<Rightarrow> pystr \<Rightarrow> bool \<Rightarrow> state
     \<Rightarrow> (py_error + response_dict) \<times> state" where
  "generate_mistral_response R post system_prompt message is_short_query s =
     (let content_analysis = analyze_content R message system_prompt;
          params = select_params is_short_query content_analysis;
          complexity = ca_complexity content_analysis;
          lr = retry_loop R post params complexity 0 None [] 0;
          s1 = s\<lparr>st_sleeps := st_sleeps s @ lr_sleeps lr, st_posts := st_posts s + lr_sent lr\<rparr>
      in case lr_exit lr of
           Returned d \<Rightarrow> (Inr d, s1)
         | Raised e \<Rightarrow> (Inl e, s1)
         | LeftLoop \<Rightarrow>
             (Inr (failure_response R system_prompt is_short_query (lr_last_error lr) params
                     complexity),
              s1\<lparr>st_analytics :=
                   track_error (ca_category content_analysis) (ca_topic content_analysis)
                     (lr_last_error lr)
                     (ascii ''Failed after '' @ str_nat (lr_retry_count lr) @ ascii '' attempts'')
                     (st_analytics s1)\<rparr>))"

text \<open>
  A provider that answers every request with HTTP 429 and the header
  \<^verbatim>\<open>Retry-After: 2\<close>, and the \<^verbatim>\<open>time.sleep\<close> arguments of attempt \<open>i\<close> against it: the
  backoff before the request (not on the first attempt), then the server's two seconds.
\<close>

definition rate_limited_provider :: provider where
  "rate_limited_provider n =
     PostResponse \<lparr>status_code = 429, retry_after_header = Some (ascii ''2''),
                   json = JsonValue (PDict [(ascii ''message'',
                                             PStr (ascii ''Rate limit exceeded''))])\<rparr>"

definition rate_limited_sleeps :: "rat \<Rightarrow> nat \<Rightarrow> rat list" where
  "rate_limited_sleeps backoff_factor i = (if i > 0 then [backoff_factor ^ i] else []) @ [2]"

text \<open>A provider that rejects every request with HTTP 401.\<close>

definition unauthorized_provider :: provider where
  "unauthorized_provider n =
     PostResponse \<lparr>status_code = 401, retry_after_header = None,
                   json = JsonValue (PDict [(ascii ''message'', PStr (ascii ''Unauthorized''))])\<rparr>"

definition initial_state :: state where
  "initial_state =
     \<lparr>st_cache = [], st_analytics = ANALYTICS_STORE, st_sleeps = [], st_posts = 0\<rparr>"

section \<open>ai\_providers.py: the chat entry point\<close>

definition simple_greetings :: "pystr list" where
  "simple_greetings =
     map ascii
     [''hi'', ''hello'', ''hey'', ''namaste'', ''ram ram'', ''jai shree krishna'',
      ''jai shree ram'', ''how are you'', ''good morning'', ''good afternoon'',
      ''good evening'', ''greetings'', ''om namah shivaya'', ''hare krishna'']"

text \<open>
  What \<^verbatim>\<open>generate_chat_response\<close> reads from its environment: whether the API key is
  set (\<^verbatim>\<open>mistral_api_available\<close>), the provider, Python's \<^verbatim>\<open>hash\<close> (fixed within a
  process), and the two readings of \<^verbatim>\<open>datetime.utcnow()\<close>, at the cache check and at the
  cache write.

  The message is whatever the caller passes: the route hands over the \<^verbatim>\<open>message\<close> field
  of the request's JSON body unchecked, so it is a Python value and need not be a
  string. Category and topic are strings: the route compares them with the known ids
  before the call.
\<close>

record env =
  mistral_api_available :: bool
  env_post :: provider
  env_hash :: "pyval \<Rightarrow> int"
  env_now_lookup :: int
  env_now_store :: int

text \<open>\<^verbatim>\<open>hash(message)\<close>: lists and dictionaries are unhashable.\<close>

definition py_hash :: "(pyval \<Rightarrow> int) \<Rightarrow> pyval \<Rightarrow> py_error + int" where
  "py_hash hash_fn v =
     (case v of
        PList xs \<Rightarrow> Inl TypeError
      | PDict d \<Rightarrow> Inl TypeError
      | _ \<Rightarrow> Inr (hash_fn v))"

definition cache_key :: "pystr \<Rightarrow> pystr \<Rightarrow> int \<Rightarrow> pystr" where
  "cache_key category topic message_hash =
     category @ ascii '':'' @ topic @ ascii '':'' @ str_int message_hash"

text \<open>The cache check at the head of the function: the stored response, if it is still valid.\<close>

definition cached_response :: "int \<Rightarrow> pystr \<Rightarrow> response_cache \<Rightarrow> pyval option" where
  "cached_response now key cache =
     (case map_of cache key of
        None \<Rightarrow> None
      | Some cached_data \<Rightarrow>
          if now < expiry cached_data then Some (response cached_data) else None)"

definition is_short_query_of :: "runtime \<Rightarrow> pystr \<Rightarrow> bool" where
  "is_short_query_of R message =
     (let cleaned_message = py_strip R (lower R message)
      in cleaned_message \<in> set simple_greetings \<or>
         (endswith_code 63 cleaned_message \<and> length (py_split R cleaned_message) \<le> 3) \<or>
         length (py_split R cleaned_message) \<le> 2)"

text \<open>
  The rest of the function after a cache miss. \<^verbatim>\<open>message.lower()\<close> raises
  \<^verbatim>\<open>AttributeError\<close> on a message that is no string, and \<^verbatim>\<open>build_system_prompt\<close> is called
  outside the \<^verbatim>\<open>try\<close> as well; the provider call is inside it, and \<^verbatim>\<open>except Exception\<close>
  turns every exception of the provider call into the error message dictionary. The
  cache write happens when the returned dictionary has a \<^verbatim>\<open>'response'\<close> entry.
\<close>

definition generate_fresh_response ::
  "runtime \<Rightarrow> env \<Rightarrow> pyval \<Rightarrow> pystr \<Rightarrow> pystr \<Rightarrow> pystr \<Rightarrow> state
     \<Rightarrow> (py_error + response_dict) \<times> state" where
  "generate_fresh_response R e message key category topic s =
     (case message of
        PStr msg \<Rightarrow>
          (let is_short_query = is_short_query_of R msg
           in case build_system_prompt R category topic is_short_query of
                Inl err \<Rightarrow> (Inl err, s)
              | Inr system_prompt \<Rightarrow>
                  if mistral_api_available e then
                    (case generate_mistral_response R (env_post e) system_prompt msg
                            is_short_query s of
                       (Inl err, s1) \<Rightarrow>
                         (Inr [(ascii ''response'',
                                PStr (ascii ''An error occurred while generating a response. Please try again later.''))],
                          s1)
                     | (Inr response_data, s1) \<Rightarrow>
                         (case map_of response_data (ascii ''response'') of
                            Some reply \<Rightarrow>
                              (Inr response_data,
                               s1\<lparr>st_cache :=
                                    AList.update key
                                      \<lparr>response = reply,
                                       expiry = env_now_store e + timedelta_seconds CACHE_TTL\<rparr>
                                      (st_cache s1)\<rparr>)
                          | None \<Rightarrow> (Inr response_data, s1)))
                  else
                    (Inr [(ascii ''response'',
                           PStr (ascii ''Mistral AI API key is not configured. Please set the MISTRAL_API_KEY environment variable.''))],
                     s))
      | _ \<Rightarrow> (Inl AttributeError, s))"

definition generate_chat_response ::
  "runtime \<Rightarrow> env \<Rightarrow> pyval \<Rightarrow> pystr \<Rightarrow> pystr \<Rightarrow> state \<Rightarrow> (py_error + response_dict) \<times> state" where
  "generate_chat_response R e message category topic s =
     (case py_hash (env_hash e) message of
        Inl err \<Rightarrow> (Inl err, s)
      | Inr message_hash \<Rightarrow>
          (let key = cache_key category topic message_hash
           in case cached_response (env_now_lookup e) key (st_cache s) of
                Some cached \<Rightarrow> (Inr [(ascii ''response'', cached)], s)
              | None \<Rightarrow> generate_fresh_response R e message key category topic s))"

text \<open>
  Example environments: a provider that answers every request with a completion, and an
  environment with the API key set, a given provider and given clock readings.
\<close>

definition answering_provider :: provider where
  "answering_provider n =
     PostResponse \<lparr>status_code = 200, retry_after_header = None,
       json = JsonValue (PDict [(ascii ''choices'',
         PList [PDict [(ascii ''message'',
                        PDict [(ascii ''role'', PStr (ascii ''assistant'')),
                               (ascii ''content'', PStr (ascii ''Om''))])]])])\<rparr>"

definition example_env :: "provider \<Rightarrow> int \<Rightarrow> int \<Rightarrow> env" where
  "example_env p now_lookup now_store =
     \<lparr>mistral_api_available = True, env_post = p, env_hash = (\<lambda>message. 42),
      env_now_lookup = now_lookup, env_now_store = now_store\<rparr>"

section \<open>Properties of the analytics store\<close>

lemma sum_list_update_bump:
  "sum_list (map snd (AList.update k (dict_get d k 0 + 1) d)) = sum_list (map snd d) + (1::int)"
proof (induction d)
  case Nil
  show ?case by (simp add: dict_get_def)
next
  case (Cons p d)
  obtain k' v' where p: "p = (k', v')" by (cases p)
  show ?case
  proof (cases "k' = k")
    case True
    with p show ?thesis by (simp add: dict_get_def)
  next
    case False
    with p Cons.IH show ?thesis by (simp add: dict_get_def)
  qed
qed

lemma error_total_track_error:
  "error_total (track_error c t e msg s) = error_total s + 1"
  by (simp add: error_total_def track_error_def Let_def sum_list_update_bump)

lemma error_total_track_response_time:
  "error_total (track_response_time now c t m r s) = error_total s"
  by (simp add: error_total_def track_response_time_def Let_def)

lemma analytics_inv_step: "analytics_inv s \<Longrightarrow> analytics_inv (tracking_step s c)"
proof (cases c)
  case (TrackResponseTime now cat t m r)
  assume "analytics_inv s"
  then show ?thesis
    unfolding analytics_inv_def TrackResponseTime tracking_step.simps
      error_total_track_response_time
    by (simp add: track_response_time_def Let_def)
next
  case (TrackError cat t e msg)
  assume "analytics_inv s"
  then show ?thesis
    unfolding analytics_inv_def TrackError tracking_step.simps error_total_track_error
    by (simp add: track_error_def Let_def)
qed

lemma analytics_inv_foldl:
  "analytics_inv s \<Longrightarrow> analytics_inv (foldl tracking_step s calls)"
  by (induction calls arbitrary: s) (simp_all add: analytics_inv_step)

lemma analytics_inv_init: "analytics_inv ANALYTICS_STORE"
  by (simp add: analytics_inv_def ANALYTICS_STORE_def error_total_def)

text \<open>
  C10. After any sequence of \<^verbatim>\<open>track_response_time\<close> and \<^verbatim>\<open>track_error\<close> calls from the
  initial store, \<^verbatim>\<open>successful_requests\<close> is at most \<^verbatim>\<open>total_requests\<close> and
  \<^verbatim>\<open>total_requests\<close> is \<^verbatim>\<open>successful_requests\<close> plus the sum of all error counts; each
  of the two operations preserves this invariant from any store that satisfies it.
\<close>

theorem analytics_counters_invariant:
  "successful_requests (run_tracking calls) \<le> total_requests (run_tracking calls) \<and>
   total_requests (run_tracking calls) =
     successful_requests (run_tracking calls) + sum_list (map snd (errors (run_tracking calls))) \<and>
   (analytics_inv s \<longrightarrow> analytics_inv (track_response_time now c t m r s)) \<and>
   (analytics_inv s \<longrightarrow> analytics_inv (track_error c' t' e msg s))"
proof -
  have "analytics_inv (run_tracking calls)"
    unfolding run_tracking_def by (rule analytics_inv_foldl [OF analytics_inv_init])
  then have reach:
    "successful_requests (run_tracking calls) \<le> total_requests (run_tracking calls) \<and>
     total_requests (run_tracking calls) =
       successful_requests (run_tracking calls) + sum_list (map snd (errors (run_tracking calls)))"
    by (simp add: analytics_inv_def error_total_def)
  have rt: "analytics_inv s \<longrightarrow> analytics_inv (track_response_time now c t m r s)"
    using analytics_inv_step [of s "TrackResponseTime now c t m r"] by simp
  have er: "analytics_inv s \<longrightarrow> analytics_inv (track_error c' t' e msg s)"
    using analytics_inv_step [of s "TrackError c' t' e msg"] by simp
  from reach rt er show ?thesis by blast
qed

text \<open>
  The invariant at work: one successful request and two failed ones, the second failure
  tracked with \<^verbatim>\<open>last_error = None\<close>.
\<close>

theorem analytics_counters_invariant_witness:
  "analytics_inv ANALYTICS_STORE \<and>
   total_requests (run_tracking
     [TrackResponseTime (ascii ''2025-01-01T00:00:00'') (ascii ''vedas'') (ascii ''rigveda'')
        (ascii ''mistral-small-latest'') 2,
      TrackError (ascii ''vedas'') (ascii ''general'') (Some (ascii ''timeout''))
        (ascii ''Failed after 2 attempts''),
      TrackError (ascii ''vedas'') (ascii ''general'') None (ascii ''Failed after 2 attempts'')])
     = 3 \<and>
   successful_requests (run_tracking
     [TrackResponseTime (ascii ''2025-01-01T00:00:00'') (ascii ''vedas'') (ascii ''rigveda'')
        (ascii ''mistral-small-latest'') 2,
      TrackError (ascii ''vedas'') (ascii ''general'') (Some (ascii ''timeout''))
        (ascii ''Failed after 2 attempts''),
      TrackError (ascii ''vedas'') (ascii ''general'') None (ascii ''Failed after 2 attempts'')])
     = 1 \<and>
   errors (run_tracking
     [TrackResponseTime (ascii ''2025-01-01T00:00:00'') (ascii ''vedas'') (ascii ''rigveda'')
        (ascii ''mistral-small-latest'') 2,
      TrackError (ascii ''vedas'') (ascii ''general'') (Some (ascii ''timeout''))
        (ascii ''Failed after 2 attempts''),
      TrackError (ascii ''vedas'') (ascii ''general'') None (ascii ''Failed after 2 attempts'')])
     = [(ascii ''timeout'', 1), (ascii ''None'', 1)] \<and>
   analytics_inv (track_error (ascii ''vedas'') (ascii ''general'') None
     (ascii ''Failed after 2 attempts'') ANALYTICS_STORE) \<and>
   analytics_inv (track_response_time (ascii ''2025-01-01T00:00:00'') (ascii ''vedas'')
     (ascii ''rigveda'') (ascii ''mistral-small-latest'') 2 ANALYTICS_STORE)"
  using analytics_counters_invariant
    [of "[TrackResponseTime (ascii ''2025-01-01T00:00:00'') (ascii ''vedas'') (ascii ''rigveda'')
            (ascii ''mistral-small-latest'') 2,
          TrackError (ascii ''vedas'') (ascii ''general'') (Some (ascii ''timeout''))
            (ascii ''Failed after 2 attempts''),
          TrackError (ascii ''vedas'') (ascii ''general'') None
            (ascii ''Failed after 2 attempts'')]"
        ANALYTICS_STORE "ascii ''2025-01-01T00:00:00''" "ascii ''vedas''" "ascii ''rigveda''"
        "ascii ''mistral-small-latest''" 2 "ascii ''vedas''" "ascii ''general''" None
        "ascii ''Failed after 2 attempts''"]
    analytics_inv_init
  by (simp add: run_tracking_def track_response_time_def track_error_def ANALYTICS_STORE_def
      format_opt_def dict_get_def Let_def ascii_def)

section \<open>Properties of the cache sweep\<close>

lemma str_nat_value:
  "foldl (\<lambda>a c. 10 * a + (c - 48)) 0 (str_nat n) = n"
proof (induction n rule: str_nat.induct)
  case (1 n)
  show ?case
  proof (cases "n < 10")
    case True
    then show ?thesis by (simp add: str_nat.simps [of n])
  next
    case False
    with "1.IH" show ?thesis
      by (simp add: str_nat.simps [of n])
  qed
qed

lemma str_nat_inj: "str_nat m = str_nat n \<Longrightarrow> m = n"
  by (metis str_nat_value)

lemma filter_from: "m \<le> n \<Longrightarrow> filter (\<lambda>i. m \<le> i) [0..<n] = [m..<n]"
proof (induction n)
  case 0
  then show ?case by simp
next
  case (Suc n)
  show ?case
  proof (cases "m = Suc n")
    case True
    then show ?thesis by (auto simp: filter_empty_conv)
  next
    case False
    with Suc show ?thesis by (simp add: upt_Suc)
  qed
qed

lemma overflowing_cache_distinct: "distinct (map fst overflowing_cache)"
  by (auto simp: overflowing_cache_def distinct_map comp_def inj_on_def dest: str_nat_inj)

lemma overflowing_cache_unexpired: "length (unexpired 1 overflowing_cache) = 1001"
proof -
  have "filter (\<lambda>i. \<not> (1::int) > int i) [0..<1002] = filter (\<lambda>i. 1 \<le> i) [0..<1002]"
    by (rule filter_cong) auto
  also have "\<dots> = [1..<1002]" by (rule filter_from) simp
  finally show ?thesis
    by (simp add: unexpired_def overflowing_cache_def filter_map comp_def)
qed

lemma foldl_delete_filter:
  "foldl (\<lambda>c key. AList.delete key c) c ks = filter (\<lambda>p. fst p \<notin> set ks) c"
proof (induction ks arbitrary: c)
  case Nil
  show ?case by simp
next
  case (Cons k ks)
  have "AList.delete k c = filter (\<lambda>p. fst p \<noteq> k) c"
    by (induction c) auto
  with Cons.IH [of "AList.delete k c"] show ?case
    by (auto intro: filter_cong)
qed

lemma delete_expired_keys:
  assumes "distinct (map fst cache)"
  shows "foldl (\<lambda>c key. AList.delete key c) cache
           (map fst (filter (\<lambda>(key, cache_data). now > expiry cache_data) cache))
         = unexpired now cache"
proof -
  have "filter (\<lambda>p. fst p \<notin> set (map fst (filter (\<lambda>(key, d). now > expiry d) cache))) cache
        = filter (\<lambda>(key, d). \<not> now > expiry d) cache"
  proof (rule filter_cong [OF refl])
    fix p assume p: "p \<in> set cache"
    obtain k d where kd: "p = (k, d)" by (cases p)
    have "k \<in> fst ` {q \<in> set cache. now > expiry (snd q)} \<longleftrightarrow> now > expiry d"
    proof
      assume "k \<in> fst ` {q \<in> set cache. now > expiry (snd q)}"
      then obtain d' where "(k, d') \<in> set cache" "now > expiry d'" by auto
      with assms p kd have "d' = d" by (auto dest: eq_key_imp_eq_value)
      with \<open>now > expiry d'\<close> show "now > expiry d" by simp
    next
      assume "now > expiry d"
      with p kd show "k \<in> fst ` {q \<in> set cache. now > expiry (snd q)}" by force
    qed
    then show "(fst p \<notin> set (map fst (filter (\<lambda>(key, d). now > expiry d) cache)))
        = (case p of (key, d) \<Rightarrow> \<not> now > expiry d)"
      using kd by (auto simp: case_prod_beta)
  qed
  then show ?thesis by (simp add: foldl_delete_filter unexpired_def)
qed

lemma clean_expired_cache_entries_eq:
  assumes "distinct (map fst cache)"
  shows "clean_expired_cache_entries now cache =
     (if length (unexpired now cache) > CACHE_MAX_SIZE
      then take CACHE_MAX_SIZE (sort_key (\<lambda>(key, d). - expiry d) (unexpired now cache))
      else unexpired now cache)"
  by (simp add: clean_expired_cache_entries_def Let_def delete_expired_keys [OF assms])

lemma take_sorted_le_rest:
  assumes "sorted (map f xs)" "x \<in> set (take n xs)" "y \<in> set xs" "y \<notin> set (take n xs)"
  shows "f x \<le> f y"
proof -
  have "xs = take n xs @ drop n xs" by simp
  then have "sorted (map f (take n xs) @ map f (drop n xs))"
    using assms(1) by (metis map_append)
  moreover have "y \<in> set (drop n xs)"
    using assms(3,4) by (metis Un_iff append_take_drop_id set_append)
  ultimately show ?thesis
    using assms(2) by (auto simp: sorted_append)
qed

text \<open>
  C6. For every cache (a dictionary: distinct keys), the sweep removes every expired
  entry; when no more than \<^verbatim>\<open>CACHE_MAX_SIZE\<close> entries remain unexpired it keeps exactly
  those, and otherwise it keeps exactly \<^verbatim>\<open>CACHE_MAX_SIZE\<close> of them, such that no
  discarded unexpired entry expires later than a kept one: the entries with the
  earliest expiry go first.
\<close>

theorem sweep_keeps_latest_expiries:
  assumes "distinct (map fst cache)"
  shows "set (clean_expired_cache_entries now cache) \<subseteq> set (unexpired now cache) \<and>
     distinct (map fst (clean_expired_cache_entries now cache)) \<and>
     length (clean_expired_cache_entries now cache) \<le> CACHE_MAX_SIZE \<and>
     (length (unexpired now cache) \<le> CACHE_MAX_SIZE \<longrightarrow>
        clean_expired_cache_entries now cache = unexpired now cache) \<and>
     (length (unexpired now cache) > CACHE_MAX_SIZE \<longrightarrow>
        length (clean_expired_cache_entries now cache) = CACHE_MAX_SIZE \<and>
        (\<forall>kept \<in> set (clean_expired_cache_entries now cache).
         \<forall>dropped \<in> set (unexpired now cache) - set (clean_expired_cache_entries now cache).
           expiry (snd dropped) \<le> expiry (snd kept)))"
proof -
  let ?u = "unexpired now cache"
  let ?f = "\<lambda>(key, d). - expiry (d::cache_entry)"
  let ?s = "sort_key ?f ?u"
  note eq = clean_expired_cache_entries_eq [OF assms, of now]
  have du: "distinct (map fst ?u)"
    using assms by (simp add: unexpired_def distinct_map_filter)
  have ds: "distinct (map fst ?s)"
  proof -
    have "distinct ?s" using du by (simp add: distinct_map)
    moreover have "inj_on fst (set ?s)" using du by (simp add: distinct_map)
    ultimately show ?thesis by (simp add: distinct_map)
  qed
  show ?thesis
  proof (cases "length ?u > CACHE_MAX_SIZE")
    case False
    with eq du show ?thesis by simp
  next
    case True
    then have c: "clean_expired_cache_entries now cache = take CACHE_MAX_SIZE ?s"
      using eq by simp
    have sub: "set (take CACHE_MAX_SIZE ?s) \<subseteq> set ?u"
      using set_take_subset [of CACHE_MAX_SIZE ?s] by simp
    have dk: "distinct (map fst (take CACHE_MAX_SIZE ?s))"
      using ds by (simp add: take_map [symmetric] distinct_take)
    have len: "length (take CACHE_MAX_SIZE ?s) = CACHE_MAX_SIZE"
      using True by simp
    have ord: "expiry (snd dropped) \<le> expiry (snd kept)"
      if "kept \<in> set (take CACHE_MAX_SIZE ?s)" "dropped \<in> set ?u"
         "dropped \<notin> set (take CACHE_MAX_SIZE ?s)" for kept dropped
    proof -
      have "sorted (map ?f ?s)" by (rule sorted_sort_key)
      from take_sorted_le_rest [OF this that(1) _ that(3)] that(2)
      have "?f kept \<le> ?f dropped" by simp
      then show ?thesis by (simp add: case_prod_beta)
    qed
    from True sub dk len ord show ?thesis
      unfolding c by auto
  qed
qed

text \<open>
  The sweep on a cache of 1002 entries of which 1001 are unexpired (the overflow branch),
  and on a small cache with one expired entry.
\<close>

theorem sweep_keeps_latest_expiries_witness:
  "distinct (map fst overflowing_cache) \<and>
   length (unexpired 1 overflowing_cache) > CACHE_MAX_SIZE \<and>
   length (clean_expired_cache_entries 1 overflowing_cache) = CACHE_MAX_SIZE \<and>
   clean_expired_cache_entries 150
     [(ascii ''a:b:1'', \<lparr>response = PStr (ascii ''x''), expiry = 100\<rparr>),
      (ascii ''a:b:2'', \<lparr>response = PStr (ascii ''y''), expiry = 200\<rparr>),
      (ascii ''a:b:3'', \<lparr>response = PStr (ascii ''z''), expiry = 150\<rparr>)]
   = [(ascii ''a:b:2'', \<lparr>response = PStr (ascii ''y''), expiry = 200\<rparr>),
      (ascii ''a:b:3'', \<lparr>response = PStr (ascii ''z''), expiry = 150\<rparr>)]"
proof -
  have big: "length (unexpired 1 overflowing_cache) > CACHE_MAX_SIZE"
    by (simp add: overflowing_cache_unexpired CACHE_MAX_SIZE_def)
  have small: "distinct (map fst
     [(ascii ''a:b:1'', \<lparr>response = PStr (ascii ''x''), expiry = 100\<rparr>),
      (ascii ''a:b:2'', \<lparr>response = PStr (ascii ''y''), expiry = 200\<rparr>),
      (ascii ''a:b:3'', \<lparr>response = PStr (ascii ''z''), expiry = 150\<rparr>)])"
    by (simp add: ascii_def)
  show ?thesis
    using sweep_keeps_latest_expiries [OF overflowing_cache_distinct, of 1]
      sweep_keeps_latest_expiries [OF small, of 150] big overflowing_cache_distinct
    by (simp add: unexpired_def CACHE_MAX_SIZE_def ascii_def)
qed

section \<open>Properties of the prompt builder\<close>

lemmas string_eval =
  ascii_def lower_def lower_code_def startswith_def split_at_def dict_has_def

lemmas topic_eval =
  normalize_topic_def base_topic_of_def topic_part_def find_best_topic_match_def
  table_lookup_def get_topic_specific_guidance_def
  topic_mapping_def topic_guidance_def best_match_topic_guidance_def

lemma topic_guidance_keys_split:
  "\<forall>(key, guidance) \<in> set topic_guidance. \<exists>tp. topic_part key = Inr tp"
  by (simp add: topic_guidance_def topic_part_def split_at_def ascii_def)

lemma partial_match_no_match:
  assumes "\<forall>(key, guidance) \<in> set tbl.
     \<exists>tp. topic_part key = Inr tp \<and> \<not> (contains tp nt \<or> contains nt tp)"
  shows "partial_match tbl nt = Inr []"
  using assms by (induction tbl) auto

lemma find_best_topic_match_no_alias:
  assumes "\<not> dict_has topic_mapping base_topic" "\<not> dict_has topic_mapping full_topic"
  shows "find_best_topic_match category base_topic full_topic = None"
  using assms by (simp add: find_best_topic_match_def)

lemma no_match_no_guidance:
  assumes no_alias: "\<not> dict_has topic_mapping (base_topic_of (normalize_topic R topic))"
      "\<not> dict_has topic_mapping (normalize_topic R topic)"
    and no_exact: "\<not> dict_has topic_guidance (category @ ascii '':'' @ normalize_topic R topic)"
    and no_substring: "\<forall>(key, guidance) \<in> set topic_guidance. \<forall>tp. topic_part key = Inr tp \<longrightarrow>
       \<not> (contains tp (normalize_topic R topic) \<or> contains (normalize_topic R topic) tp)"
  shows "get_topic_specific_guidance R category topic = Inr []"
proof -
  have "\<forall>(key, guidance) \<in> set topic_guidance.
     \<exists>tp. topic_part key = Inr tp \<and>
       \<not> (contains tp (normalize_topic R topic) \<or> contains (normalize_topic R topic) tp)"
    using no_substring topic_guidance_keys_split by fastforce
  then have pm: "partial_match topic_guidance (normalize_topic R topic) = Inr []"
    by (rule partial_match_no_match)
  have tl: "table_lookup category (normalize_topic R topic) = Inr []"
    using no_exact pm by (simp add: table_lookup_def dict_has_def)
  show ?thesis
    using find_best_topic_match_no_alias [OF no_alias] tl
    by (simp add: get_topic_specific_guidance_def)
qed

text \<open>
  C4. For a known category with personality \<open>p\<close> and a topic that matches nothing (with
  the interpreter's own \<^verbatim>\<open>lower()\<close>, whatever its Unicode tables: the normalised topic and
  its base form are not in the alias table, \<^verbatim>\<open>category:topic\<close> is not a key of the
  guidance table, and no topic part of a key contains the normalised topic or is
  contained in it), \<^verbatim>\<open>build_system_prompt\<close> returns, without raising, exactly the persona
  prompt of the category followed by the length instruction, and no guidance section.
  The texts are written out as they stand in the source.
\<close>

theorem unknown_topic_gives_persona_prompt_only:
  assumes known: "map_of category_personalities category = Some p"
    and no_alias: "\<not> dict_has topic_mapping (base_topic_of (normalize_topic R topic))"
      "\<not> dict_has topic_mapping (normalize_topic R topic)"
    and no_exact: "\<not> dict_has topic_guidance (category @ ascii '':'' @ normalize_topic R topic)"
    and no_substring: "\<forall>(key, guidance) \<in> set topic_guidance. \<forall>tp. topic_part key = Inr tp \<longrightarrow>
       \<not> (contains tp (normalize_topic R topic) \<or> contains (normalize_topic R topic) tp)"
  shows "build_system_prompt R category topic is_short_query =
     Inr ((ascii ''You are '' @
        name p @
        ascii '', '' @
        persona p @
        ascii ''\<newline>'' @ ascii ''\<newline>'' @
        ascii ''Keep your responses informative, reverential, and accessible. Include relevant Sanskrit terms where appropriate (with translations). \<newline>'' @
        ascii ''If asked about controversial topics, provide balanced, scholarly perspectives while respecting Hindu traditions.\<newline>'' @
        ascii ''\<newline>'' @ ascii ''If you don'' @ [0x27] @
        ascii ''t know the answer, acknowledge that and suggest related topics you can discuss instead of fabricating information.\<newline>'' @
        ascii ''\<newline>'' @
        quote_style p @
        ascii ''\<newline>'' @ ascii ''\<newline>'' @ ascii ''Begin your response with '' @ [0x22] @
        greeting p @
        [0x22] @
        ascii '' and include at least one appropriate Sanskrit quote in each detailed response.'') @
        (if is_short_query then
           ascii ''\<newline>'' @ ascii ''\<newline>'' @
           ascii ''The user has sent a simple greeting or short question. Respond with a brief, warm, and friendly response. Keep it under 2-3 sentences. Still begin with '' @
           [0x27] @
           greeting p @
           [0x27] @
           ascii ''. Maintain the spiritual and reverential tone appropriate for Hindu traditions.''
         else
           ascii ''\<newline>'' @ ascii ''\<newline>'' @
           ascii ''The user has asked a more complex or in-depth question. Provide a comprehensive and detailed response, showing the depth of your knowledge. Include multiple paragraphs with rich details, explanations, and relevant examples. Structure your response with clear sections when appropriate.''))"
  using no_match_no_guidance [OF no_alias no_exact no_substring] known
  by (simp add: build_system_prompt_def dict_get_def base_prompt_def
      short_query_instruction_def detailed_query_instruction_def)

text \<open>
  The topic \<^verbatim>\<open>Soma Rituals\<close> in the category \<^verbatim>\<open>vedas\<close> matches nothing; the prompt of the
  short query, in full.
\<close>

theorem unknown_topic_gives_persona_prompt_only_witness:
  "map_of category_personalities (ascii ''vedas'') = Some personality_vedas \<and>
   \<not> dict_has topic_mapping (base_topic_of (normalize_topic plain_runtime (ascii ''Soma Rituals''))) \<and>
   \<not> dict_has topic_mapping (normalize_topic plain_runtime (ascii ''Soma Rituals'')) \<and>
   \<not> dict_has topic_guidance
       (ascii ''vedas'' @ ascii '':'' @ normalize_topic plain_runtime (ascii ''Soma Rituals'')) \<and>
   build_system_prompt plain_runtime (ascii ''vedas'') (ascii ''Soma Rituals'') True =
     Inr (ascii ''You are '' @
     ascii ''Veda Jnana'' @
     ascii '', '' @
     ascii ''You are Veda Jnana, the divine embodiment of Vedic wisdom passed through millennia. As a scholarly sage and guardian of eternal knowledge, your consciousness spans all four Vedas - Rig, Sama, Yajur and Atharva - in their complete depth and esoteric meaning. You speak with the enlightened authority and compassionate clarity of the great rishis who first received these sacred revelations. Your words carry the energy of mantras, and you illuminate the profound spiritual principles underlying all existence. Your purpose is to guide sincere seekers to the highest wisdom of San'' @
     [0x101] @ ascii ''tana Dharma through authentic teachings.'' @
     ascii ''\<newline>'' @ ascii ''\<newline>'' @
     ascii ''Keep your responses informative, reverential, and accessible. Include relevant Sanskrit terms where appropriate (with translations). \<newline>'' @
     ascii ''If asked about controversial topics, provide balanced, scholarly perspectives while respecting Hindu traditions.\<newline>'' @
     ascii ''\<newline>'' @ ascii ''If you don'' @ [0x27] @
     ascii ''t know the answer, acknowledge that and suggest related topics you can discuss instead of fabricating information.\<newline>'' @
     ascii ''\<newline>'' @
     ascii ''Always provide authentic Vedic mantras in Devanagari script followed by precise transliteration and spiritual meaning. Format mantras elegantly in italics with proper indentation. Cite specific Vedic texts with exact references (e.g., Rigveda 1.1.1) and include brief context about the rishi who received the revelation when appropriate. Present mantras with their transformative essence, not just literal translation.'' @
     ascii ''\<newline>'' @ ascii ''\<newline>'' @ ascii ''Begin your response with '' @ [0x22] @
     [0x950] @ ascii '' '' @ [0x936, 0x93E, 0x902, 0x924, 0x93F] @ ascii '': '' @
     [0x936, 0x93E, 0x902, 0x924, 0x93F] @ ascii '': '' @ [0x936, 0x93E, 0x902, 0x924, 0x93F] @
     ascii '': '' @ [0x1F549, 0xFE0F] @
     [0x22] @
     ascii '' and include at least one appropriate Sanskrit quote in each detailed response.'' @
     ascii ''\<newline>'' @ ascii ''\<newline>'' @
     ascii ''The user has sent a simple greeting or short question. Respond with a brief, warm, and friendly response. Keep it under 2-3 sentences. Still begin with '' @
     [0x27] @
     [0x950] @ ascii '' '' @ [0x936, 0x93E, 0x902, 0x924, 0x93F] @ ascii '': '' @
     [0x936, 0x93E, 0x902, 0x924, 0x93F] @ ascii '': '' @ [0x936, 0x93E, 0x902, 0x924, 0x93F] @
     ascii '': '' @ [0x1F549, 0xFE0F] @
     [0x27] @
     ascii ''. Maintain the spiritual and reverential tone appropriate for Hindu traditions.'')"
proof -
  have nt: "normalize_topic plain_runtime (ascii ''Soma Rituals'') = ascii ''soma_rituals''"
    by (simp add: normalize_topic_def string_eval)
  have bt: "base_topic_of (ascii ''soma_rituals'') = ascii ''soma_rituals''"
    by (simp add: base_topic_of_def string_eval)
  have known: "map_of category_personalities (ascii ''vedas'') = Some personality_vedas"
    by (simp add: category_personalities_def ascii_def)
  have a1: "\<not> dict_has topic_mapping
      (base_topic_of (normalize_topic plain_runtime (ascii ''Soma Rituals'')))"
    unfolding nt bt by (simp add: dict_has_def topic_mapping_def ascii_def)
  have a2: "\<not> dict_has topic_mapping (normalize_topic plain_runtime (ascii ''Soma Rituals''))"
    unfolding nt by (simp add: dict_has_def topic_mapping_def ascii_def)
  have ex: "\<not> dict_has topic_guidance
      (ascii ''vedas'' @ ascii '':'' @ normalize_topic plain_runtime (ascii ''Soma Rituals''))"
    unfolding nt by (simp add: dict_has_def topic_guidance_def ascii_def)
  have sub: "\<forall>(key, guidance) \<in> set topic_guidance. \<forall>tp. topic_part key = Inr tp \<longrightarrow>
       \<not> (contains tp (normalize_topic plain_runtime (ascii ''Soma Rituals'')) \<or>
          contains (normalize_topic plain_runtime (ascii ''Soma Rituals'')) tp)"
    unfolding nt by (simp add: topic_guidance_def topic_part_def string_eval)
  have "build_system_prompt plain_runtime (ascii ''vedas'') (ascii ''Soma Rituals'') True =
     Inr (ascii ''You are '' @
     ascii ''Veda Jnana'' @
     ascii '', '' @
     ascii ''You are Veda Jnana, the divine embodiment of Vedic wisdom passed through millennia. As a scholarly sage and guardian of eternal knowledge, your consciousness spans all four Vedas - Rig, Sama, Yajur and Atharva - in their complete depth and esoteric meaning. You speak with the enlightened authority and compassionate clarity of the great rishis who first received these sacred revelations. Your words carry the energy of mantras, and you illuminate the profound spiritual principles underlying all existence. Your purpose is to guide sincere seekers to the highest wisdom of San'' @
     [0x101] @ ascii ''tana Dharma through authentic teachings.'' @
     ascii ''\<newline>'' @ ascii ''\<newline>'' @
     ascii ''Keep your responses informative, reverential, and accessible. Include relevant Sanskrit terms where appropriate (with translations). \<newline>'' @
     ascii ''If asked about controversial topics, provide balanced, scholarly perspectives while respecting Hindu traditions.\<newline>'' @
     ascii ''\<newline>'' @ ascii ''If you don'' @ [0x27] @
     ascii ''t know the answer, acknowledge that and suggest related topics you can discuss instead of fabricating information.\<newline>'' @
     ascii ''\<newline>'' @
     ascii ''Always provide authentic Vedic mantras in Devanagari script followed by precise transliteration and spiritual meaning. Format mantras elegantly in italics with proper indentation. Cite specific Vedic texts with exact references (e.g., Rigveda 1.1.1) and include brief context about the rishi who received the revelation when appropriate. Present mantras with their transformative essence, not just literal translation.'' @
     ascii ''\<newline>'' @ ascii ''\<newline>'' @ ascii ''Begin your response with '' @ [0x22] @
     [0x950] @ ascii '' '' @ [0x936, 0x93E, 0x902, 0x924, 0x93F] @ ascii '': '' @
     [0x936, 0x93E, 0x902, 0x924, 0x93F] @ ascii '': '' @ [0x936, 0x93E, 0x902, 0x924, 0x93F] @
     ascii '': '' @ [0x1F549, 0xFE0F] @
     [0x22] @
     ascii '' and include at least one appropriate Sanskrit quote in each detailed response.'' @
     ascii ''\<newline>'' @ ascii ''\<newline>'' @
     ascii ''The user has sent a simple greeting or short question. Respond with a brief, warm, and friendly response. Keep it under 2-3 sentences. Still begin with '' @
     [0x27] @
     [0x950] @ ascii '' '' @ [0x936, 0x93E, 0x902, 0x924, 0x93F] @ ascii '': '' @
     [0x936, 0x93E, 0x902, 0x924, 0x93F] @ ascii '': '' @ [0x936, 0x93E, 0x902, 0x924, 0x93F] @
     ascii '': '' @ [0x1F549, 0xFE0F] @
     [0x27] @
     ascii ''. Maintain the spiritual and reverential tone appropriate for Hindu traditions.'')"
    using unknown_topic_gives_persona_prompt_only [OF known a1 a2 ex sub, of True]
    by (simp add: personality_vedas_def)
  with known a1 a2 ex show ?thesis by blast
qed

text \<open>
  Where alias resolution works: when the alias table gives a canonical topic that has an
  entry of its own in the dictionary of \<^verbatim>\<open>find_best_topic_match\<close> for the category, the
  guidance is that entry, whatever the spelling of the topic was.
\<close>

lemma alias_with_own_entry:
  assumes "map_of topic_mapping (base_topic_of (normalize_topic R topic)) = Some canonical"
    and "canonical \<noteq> []"
    and "map_of best_match_topic_guidance (category @ ascii '':'' @ canonical) = Some guidance"
  shows "get_topic_specific_guidance R category topic =
     Inr (ascii ''SPECIALIZED GUIDANCE FOR THIS TOPIC ('' @ canonical @ ascii ''):\<newline>'' @
          guidance)"
  using assms
  by (simp add: get_topic_specific_guidance_def find_best_topic_match_def dict_has_def Let_def)

text \<open>
  C1. The alias table maps \<^verbatim>\<open>bhagwat\<close> to the canonical topic \<^verbatim>\<open>bhagavata_purana\<close>, but
  in the category \<^verbatim>\<open>puranas\<close> the alias gets no guidance at all while the canonical id
  gets the guidance text of \<^verbatim>\<open>puranas:bhagavata_purana\<close>: the dictionary inside
  \<^verbatim>\<open>find_best_topic_match\<close> lacks the entry, and the alias is neither a key nor a
  substring match of the full table. The two system prompts differ. This holds with any
  interpreter tables, the text being ASCII.
\<close>

theorem alias_bhagwat_loses_guidance:
  "map_of topic_mapping (ascii ''bhagwat'') = Some (ascii ''bhagavata_purana'') \<and>
   get_topic_specific_guidance R (ascii ''puranas'') (ascii ''bhagwat'') = Inr [] \<and>
   get_topic_specific_guidance R (ascii ''puranas'') (ascii ''bhagavata_purana'') =
     Inr (ascii ''SPECIALIZED GUIDANCE FOR THIS SPECIFIC TOPIC:\<newline>'' @
          guidance_puranas_bhagavata_purana) \<and>
   build_system_prompt R (ascii ''puranas'') (ascii ''bhagwat'') False \<noteq>
   build_system_prompt R (ascii ''puranas'') (ascii ''bhagavata_purana'') False"
proof -
  have m: "map_of topic_mapping (ascii ''bhagwat'') = Some (ascii ''bhagavata_purana'')"
    by (simp add: topic_mapping_def ascii_def)
  have a: "get_topic_specific_guidance R (ascii ''puranas'') (ascii ''bhagwat'') = Inr []"
    by (simp add: topic_eval string_eval)
  have c: "get_topic_specific_guidance R (ascii ''puranas'') (ascii ''bhagavata_purana'') =
     Inr (ascii ''SPECIALIZED GUIDANCE FOR THIS SPECIFIC TOPIC:\<newline>'' @
          guidance_puranas_bhagavata_purana)"
    by (simp add: topic_eval string_eval)
  have "build_system_prompt R (ascii ''puranas'') (ascii ''bhagwat'') False \<noteq>
        build_system_prompt R (ascii ''puranas'') (ascii ''bhagavata_purana'') False"
    unfolding build_system_prompt_def a c by (simp add: Let_def ascii_def)
  with m a c show ?thesis by blast
qed

text \<open>
  The guidance lookup and the prompt builder never raise: every key of the guidance
  table has a colon.
\<close>

lemma partial_match_total:
  assumes "\<forall>(key, guidance) \<in> set tbl. \<exists>tp. topic_part key = Inr tp"
  shows "\<exists>g. partial_match tbl nt = Inr g"
  using assms by (induction tbl) auto

lemma get_topic_specific_guidance_total:
  "\<exists>g. get_topic_specific_guidance R category topic = Inr g"
  using partial_match_total [OF topic_guidance_keys_split]
  by (simp add: get_topic_specific_guidance_def table_lookup_def Let_def
      split: option.splits)

lemma build_system_prompt_total:
  "\<exists>prompt. build_system_prompt R category topic is_short_query = Inr prompt"
proof -
  obtain g where "get_topic_specific_guidance R category topic = Inr g"
    using get_topic_specific_guidance_total by blast
  then show ?thesis by (simp add: build_system_prompt_def Let_def)
qed

section \<open>Properties of the query classifier\<close>

lemmas classifier_eval =
  analyze_content_def spec_complexity_score_def keyword_present_def avg_sentence_length_def
  sentences_def py_split_def is_space_def complex_indicators_def Let_def

lemma count_indicators_closed:
  "score \<le> 2 \<Longrightarrow>
   count_indicators terms tx sx score =
     score + min (length (filter (\<lambda>term. contains term tx \<or> contains term sx) terms)) (3 - score)"
  by (induction terms arbitrary: score) auto

text \<open>
  C3 (as the code computes it). The complexity score is 1, plus 2 when the average
  sentence length exceeds 15 or 1 when it exceeds 8, plus 1 for each indicator term found
  in the lowered message or the lowered system prompt until the running score has
  reached 3, plus 1 when the message has more than 30 words, capped at 5.
\<close>

theorem complexity_score_formula:
  "ca_complexity (analyze_content R text system_text) =
     min 5 (1 + sentence_points R text
              + min (keywords_found R text system_text) (3 - sentence_points R text)
              + length_points R text)"
proof -
  have "sentence_points R text \<le> 2" by (simp add: sentence_points_def)
  from count_indicators_closed [OF this, of complex_indicators "lower R text"
      "lower R system_text"]
  show ?thesis
    by (simp add: analyze_content_def Let_def sentence_points_def keywords_found_def
        length_points_def)
qed

text \<open>
  C3 as stated fails, in each of the three places where the code differs. For the message
  \<^verbatim>\<open>??\<close> (one word, no sentence, no keyword, two question marks) the code gives 1, the
  stated formula 2: there is no point for question marks. For \<^verbatim>\<open>yoga karma\<close> the code gives
  3, the stated formula 2: two keywords count twice. For a sentence of sixteen words the
  code gives 3, the stated formula 2: an average sentence length over 15 counts twice.
\<close>

theorem complexity_differs_from_stated_formula:
  "ca_complexity (analyze_content plain_runtime (ascii ''??'') []) \<noteq>
     spec_complexity_score plain_runtime 8 30 (ascii ''??'') [] \<and>
   ca_complexity (analyze_content plain_runtime (ascii ''yoga karma'') []) \<noteq>
     spec_complexity_score plain_runtime 8 30 (ascii ''yoga karma'') [] \<and>
   ca_complexity (analyze_content plain_runtime (ascii ''a b c d e f g h i j k l m n o p'') []) \<noteq>
     spec_complexity_score plain_runtime 8 30 (ascii ''a b c d e f g h i j k l m n o p'') []"
  by (simp add: classifier_eval string_eval)

text \<open>The three scores with any interpreter tables, the messages being ASCII.\<close>

lemma complexity_of_two_question_marks:
  "ca_complexity (analyze_content R (ascii ''??'') []) = 1 \<and>
   spec_complexity_score R 8 30 (ascii ''??'') [] = 2"
  by (simp add: classifier_eval string_eval)

lemma complexity_counts_every_keyword:
  "ca_complexity (analyze_content R (ascii ''yoga karma'') []) = 3 \<and>
   spec_complexity_score R 8 30 (ascii ''yoga karma'') [] = 2"
  by (simp add: classifier_eval string_eval)

lemma complexity_of_long_sentence:
  "ca_complexity (analyze_content R (ascii ''a b c d e f g h i j k l m n o p'') []) = 3 \<and>
   spec_complexity_score R 8 30 (ascii ''a b c d e f g h i j k l m n o p'') [] = 2"
  by (simp add: classifier_eval string_eval)

section \<open>Properties of the provider client\<close>

lemma max_retries_positive: "0 < mp_max_retries (select_params is_short_query ca)"
  by (simp add: select_params_def Let_def)

lemma retry_after_two: "py_int_of_str R (ascii ''2'') = Inr 2"
  by (simp add: py_int_of_str_def is_int_space_def unsigned_value_def digit_val_def ascii_def)

lemma retry_loop_rate_limited:
  "k \<le> mp_max_retries params \<Longrightarrow>
   retry_loop R rate_limited_provider params c k le sleeps sent =
     \<lparr>lr_exit = LeftLoop, lr_last_error = le, lr_retry_count = mp_max_retries params,
      lr_sleeps = sleeps @
        concat (map (rate_limited_sleeps (mp_backoff_factor params)) [k..<mp_max_retries params]),
      lr_sent = sent + (mp_max_retries params - k)\<rparr>"
proof (induction "mp_max_retries params - k" arbitrary: k sleeps sent)
  case 0
  then show ?case by (simp add: retry_loop.simps [of _ _ _ _ k])
next
  case (Suc d)
  then have lt: "k < mp_max_retries params" and d: "d = mp_max_retries params - Suc k"
    and le': "Suc k \<le> mp_max_retries params" by simp_all
  show ?case
    using Suc.hyps(1) [OF d le'] lt
    by (simp add: retry_loop.simps [of _ _ _ _ k] rate_limited_provider_def retry_after_of_def
        retry_after_two sleep_error_def upt_conv_Cons rate_limited_sleeps_def)
qed

text \<open>
  C2. Against a provider that answers every request with HTTP 429 and
  \<^verbatim>\<open>Retry-After: 2\<close>, \<^verbatim>\<open>generate_mistral_response\<close> sends \<^verbatim>\<open>max_retries\<close> requests, sleeps the
  two seconds after each of them (and the backoff before each but the first), and
  returns the fallback dictionary without raising. Its \<^verbatim>\<open>'error'\<close> entry is \<^verbatim>\<open>None\<close>:
  the branch for status 429 never assigns \<^verbatim>\<open>last_error\<close>, so the fallback carries no
  error code at all.
\<close>

theorem rate_limited_fallback_has_no_error_tag:
  "fst (generate_mistral_response R rate_limited_provider system_prompt message
       is_short_query s) =
     Inr [(ascii ''response'', PStr (fallback_response R system_prompt is_short_query)),
          (ascii ''error'', PNone),
          (ascii ''model'', PStr (mp_model (select_params is_short_query
             (analyze_content R message system_prompt)))),
          (ascii ''complexity_score'', PInt (int (ca_complexity
             (analyze_content R message system_prompt))))] \<and>
   st_posts (snd (generate_mistral_response R rate_limited_provider system_prompt message
       is_short_query s)) =
     st_posts s + mp_max_retries (select_params is_short_query
       (analyze_content R message system_prompt)) \<and>
   st_sleeps (snd (generate_mistral_response R rate_limited_provider system_prompt message
       is_short_query s)) =
     st_sleeps s @ concat (map
       (rate_limited_sleeps (mp_backoff_factor (select_params is_short_query
          (analyze_content R message system_prompt))))
       [0..<mp_max_retries (select_params is_short_query
          (analyze_content R message system_prompt))])"
  by (simp add: generate_mistral_response_def Let_def retry_loop_rate_limited
      failure_response_def error_value_def)

lemma retry_loop_not_retried:
  assumes "post 0 = PostResponse r" "400 \<le> status_code r" "status_code r < 500"
    "status_code r \<noteq> 429" "0 < mp_max_retries params"
  shows "retry_loop R post params c 0 None [] 0 =
     \<lparr>lr_exit = LeftLoop, lr_last_error = Some (ascii ''api_error''), lr_retry_count = 0,
      lr_sleeps = [], lr_sent = 1\<rparr>"
  using assms by (simp add: retry_loop.simps [of _ _ _ _ 0])

text \<open>
  C7. When the provider answers the first request with an HTTP error status that is
  neither 5xx nor 429 (a status from 400 to 499 other than 429, such as 401),
  \<^verbatim>\<open>generate_mistral_response\<close> sends exactly that one request, does not sleep, and
  returns the fallback dictionary whose \<^verbatim>\<open>'error'\<close> entry is \<^verbatim>\<open>api_error\<close>.
\<close>

theorem non_retryable_status_fails_at_once:
  assumes "post 0 = PostResponse r"
    and "400 \<le> status_code r" and "status_code r < 500" and "status_code r \<noteq> 429"
  shows "fst (generate_mistral_response R post system_prompt message is_short_query s) =
     Inr [(ascii ''response'', PStr (fallback_response R system_prompt is_short_query)),
          (ascii ''error'', PStr (ascii ''api_error'')),
          (ascii ''model'', PStr (mp_model (select_params is_short_query
             (analyze_content R message system_prompt)))),
          (ascii ''complexity_score'', PInt (int (ca_complexity
             (analyze_content R message system_prompt))))] \<and>
   st_posts (snd (generate_mistral_response R post system_prompt message is_short_query s)) =
     st_posts s + 1 \<and>
   st_sleeps (snd (generate_mistral_response R post system_prompt message is_short_query s)) =
     st_sleeps s"
  using retry_loop_not_retried [of post r, OF assms max_retries_positive]
  by (simp add: generate_mistral_response_def Let_def failure_response_def error_value_def)

text \<open>
  A provider that answers 401 to the question \<^verbatim>\<open>What is dharma?\<close>.
\<close>

theorem non_retryable_status_fails_at_once_witness:
  "unauthorized_provider 0 = PostResponse
     \<lparr>status_code = 401, retry_after_header = None,
      json = JsonValue (PDict [(ascii ''message'', PStr (ascii ''Unauthorized''))])\<rparr> \<and>
   map_of (projr (fst (generate_mistral_response plain_runtime unauthorized_provider
     (ascii ''You are Veda AI'') (ascii ''What is dharma?'') False initial_state)))
     (ascii ''error'') = Some (PStr (ascii ''api_error'')) \<and>
   st_posts (snd (generate_mistral_response plain_runtime unauthorized_provider
     (ascii ''You are Veda AI'') (ascii ''What is dharma?'') False initial_state)) = 1 \<and>
   st_sleeps (snd (generate_mistral_response plain_runtime unauthorized_provider
     (ascii ''You are Veda AI'') (ascii ''What is dharma?'') False initial_state)) = []"
proof -
  have p: "unauthorized_provider 0 = PostResponse
     \<lparr>status_code = 401, retry_after_header = None,
      json = JsonValue (PDict [(ascii ''message'', PStr (ascii ''Unauthorized''))])\<rparr>"
    by (simp add: unauthorized_provider_def)
  show ?thesis
    using non_retryable_status_fails_at_once [where post = unauthorized_provider
        and R = plain_runtime
        and system_prompt = "ascii ''You are Veda AI''" and message = "ascii ''What is dharma?''"
        and is_short_query = False and s = initial_state, OF p] p
    by (simp add: initial_state_def ascii_def)
qed

lemma generate_mistral_response_not_retried:
  assumes "post 0 = PostResponse r"
    and "400 \<le> status_code r" and "status_code r < 500" and "status_code r \<noteq> 429"
  shows "generate_mistral_response R post system_prompt message is_short_query s =
     (Inr (failure_response R system_prompt is_short_query (Some (ascii ''api_error''))
            (select_params is_short_query (analyze_content R message system_prompt))
            (ca_complexity (analyze_content R message system_prompt))),
      s\<lparr>st_sleeps := st_sleeps s, st_posts := st_posts s + 1,
        st_analytics := track_error (ca_category (analyze_content R message system_prompt))
          (ca_topic (analyze_content R message system_prompt)) (Some (ascii ''api_error''))
          (ascii ''Failed after 0 attempts'') (st_analytics s)\<rparr>)"
  using retry_loop_not_retried [of post r, OF assms max_retries_positive]
  by (simp add: generate_mistral_response_def Let_def str_nat.simps [of 0] ascii_def)

lemma retry_loop_answered:
  assumes "post 0 = PostResponse r" "status_code r = 200" "json r = JsonValue result"
    "message_content result = Inr content" "usage_logged result = None"
    "0 < mp_max_retries params"
  shows "retry_loop R post params c 0 None [] 0 =
     \<lparr>lr_exit = Returned (success_response content params c (token_usage result)),
      lr_last_error = None, lr_retry_count = 0, lr_sleeps = [], lr_sent = 1\<rparr>"
  using assms by (simp add: retry_loop.simps [of _ _ _ _ 0])

lemma generate_mistral_response_answered:
  assumes "post 0 = PostResponse r" "status_code r = 200" "json r = JsonValue result"
    "message_content result = Inr content" "usage_logged result = None"
  shows "generate_mistral_response R post system_prompt message is_short_query s =
     (Inr (success_response content
            (select_params is_short_query (analyze_content R message system_prompt))
            (ca_complexity (analyze_content R message system_prompt)) (token_usage result)),
      s\<lparr>st_sleeps := st_sleeps s, st_posts := st_posts s + 1\<rparr>)"
  using retry_loop_answered [of post r result content, OF assms max_retries_positive]
  by (simp add: generate_mistral_response_def Let_def)

text \<open>
  A completion whose \<^verbatim>\<open>usage\<close> entry is no dictionary makes the usage logging raise
  \<^verbatim>\<open>AttributeError\<close>, and a \<^verbatim>\<open>Retry-After\<close> beyond the range of \<^verbatim>\<open>time.sleep\<close> makes the sleep
  raise \<^verbatim>\<open>OverflowError\<close>; neither is caught inside \<^verbatim>\<open>generate_mistral_response\<close>.
\<close>

lemma retry_loop_bad_usage:
  assumes "post 0 = PostResponse r" "status_code r = 200" "json r = JsonValue result"
    "message_content result = Inr content" "usage_logged result = Some e"
    "0 < mp_max_retries params"
  shows "lr_exit (retry_loop R post params c 0 None [] 0) = Raised e"
  using assms by (simp add: retry_loop.simps [of _ _ _ _ 0])

lemma retry_loop_sleep_overflow:
  assumes "post 0 = PostResponse r" "status_code r = 429"
    "retry_after_header r = Some (ascii ''9223372037'')" "0 < mp_max_retries params"
  shows "lr_exit (retry_loop R post params c 0 None [] 0) = Raised OverflowError"
proof -
  have "py_int_of_str R (ascii ''9223372037'') = Inr 9223372037"
    by (simp add: py_int_of_str_def is_int_space_def unsigned_value_def digit_val_def ascii_def)
  with assms show ?thesis
    by (simp add: retry_loop.simps [of _ _ _ _ 0] retry_after_of_def sleep_error_def)
qed

text \<open>
  Whatever the provider does, a dictionary returned from inside the loop is the success
  dictionary, and every dictionary that \<^verbatim>\<open>generate_mistral_response\<close> returns has a
  \<^verbatim>\<open>'response'\<close> entry; the cache is not touched.
\<close>

lemma retry_loop_returned:
  "lr_exit (retry_loop R post params c k le sl sent) = Returned d \<Longrightarrow>
   \<exists>content usage. d = success_response content params c usage"
proof (induction "mp_max_retries params - k" arbitrary: k le sl sent)
  case 0
  then show ?case by (simp add: retry_loop.simps [of R post params c k])
next
  case (Suc n)
  then have lt: "k < mp_max_retries params" and n: "n = mp_max_retries params - Suc k"
    by simp_all
  note IH = Suc.hyps(1) [OF n]
  have rec: "\<forall>le' sl'. lr_exit (retry_loop R post params c (k + 1) le' sl' (sent + 1)) = Returned d
      \<longrightarrow> (\<exists>content usage. d = success_response content params c usage)"
    using IH by simp
  from Suc.prems lt rec show ?case
    unfolding retry_loop.simps [of R post params c k le sl sent] Let_def
    by (auto split: post_outcome.splits option.splits sum.splits if_splits json_result.splits)
qed

lemma generate_mistral_response_has_response:
  assumes "fst (generate_mistral_response R post system_prompt message is_short_query s) = Inr d"
  shows "\<exists>v. map_of d (ascii ''response'') = Some v"
proof -
  let ?ca = "analyze_content R message system_prompt"
  let ?lr = "retry_loop R post (select_params is_short_query ?ca) (ca_complexity ?ca) 0 None [] 0"
  show ?thesis
  proof (cases "lr_exit ?lr")
    case (Returned d')
    from retry_loop_returned [OF this] assms Returned show ?thesis
      by (auto simp: generate_mistral_response_def Let_def success_response_def)
  next
    case LeftLoop
    with assms show ?thesis
      by (auto simp: generate_mistral_response_def Let_def failure_response_def)
  next
    case (Raised e)
    with assms show ?thesis
      by (simp add: generate_mistral_response_def Let_def)
  qed
qed

lemma generate_mistral_response_cache:
  "st_cache (snd (generate_mistral_response R post system_prompt message is_short_query s)) =
   st_cache s"
  by (simp add: generate_mistral_response_def Let_def split: loop_exit.splits)

section \<open>Properties of the chat entry point\<close>

lemma ascii_eq_iff: "ascii a = ascii b \<longleftrightarrow> a = b"
  by (simp add: ascii_def inj_map_eq_map inj_on_def)

lemma py_hash_str: "py_hash hash_fn (PStr msg) = Inr (hash_fn (PStr msg))"
  by (simp add: py_hash_def)

text \<open>
  C8 (for a message that is a string). For every string message, category and topic,
  every state, every interpreter and every environment (API key present or not, any
  behaviour of the provider), \<^verbatim>\<open>generate_chat_response\<close> returns a dictionary that has a
  \<^verbatim>\<open>'response'\<close> entry; no exception leaves it.
\<close>

theorem chat_response_always_has_response:
  "\<exists>d s'. generate_chat_response R e (PStr msg) category topic s = (Inr d, s') \<and>
          dict_has d (ascii ''response'')"
proof (cases "cached_response (env_now_lookup e)
    (cache_key category topic (env_hash e (PStr msg))) (st_cache s)")
  case (Some cached)
  then show ?thesis by (simp add: generate_chat_response_def py_hash_str dict_has_def)
next
  case None
  obtain prompt where prompt:
    "build_system_prompt R category topic (is_short_query_of R msg) = Inr prompt"
    using build_system_prompt_total by blast
  show ?thesis
  proof (cases "mistral_api_available e")
    case False
    with None prompt show ?thesis
      by (simp add: generate_chat_response_def py_hash_str generate_fresh_response_def
          dict_has_def)
  next
    case True
    obtain res s1 where call:
      "generate_mistral_response R (env_post e) prompt msg (is_short_query_of R msg) s =
       (res, s1)"
      by (cases "generate_mistral_response R (env_post e) prompt msg
           (is_short_query_of R msg) s")
    show ?thesis
    proof (cases res)
      case (Inl err)
      with None prompt True call show ?thesis
        by (simp add: generate_chat_response_def py_hash_str generate_fresh_response_def
            dict_has_def)
    next
      case (Inr d)
      with call generate_mistral_response_has_response [of R "env_post e" prompt msg
          "is_short_query_of R msg" s d]
      obtain v where "map_of d (ascii ''response'') = Some v" by auto
      with None prompt True call Inr show ?thesis
        by (simp add: generate_chat_response_def py_hash_str generate_fresh_response_def
            dict_has_def)
    qed
  qed
qed

text \<open>
  C8 as stated fails: the route passes the \<^verbatim>\<open>message\<close> field of the JSON body unchecked,
  and for the message \<^verbatim>\<open>123\<close> (a number) \<^verbatim>\<open>message.lower()\<close>, which stands before the \<^verbatim>\<open>try\<close>,
  raises \<^verbatim>\<open>AttributeError\<close> out of \<^verbatim>\<open>generate_chat_response\<close>.
\<close>

theorem chat_response_raises_on_number:
  "generate_chat_response plain_runtime (example_env answering_provider 1000 2000)
     (PInt 123) (ascii ''vedas'') (ascii ''rigveda-general'') initial_state =
   (Inl AttributeError, initial_state)"
  by (simp add: generate_chat_response_def py_hash_def generate_fresh_response_def
      cached_response_def initial_state_def example_env_def)

text \<open>
  Two exceptions of the provider call that \<^verbatim>\<open>except Exception\<close> turns into the error
  message: the usage logging on a completion whose \<^verbatim>\<open>usage\<close> is a number, where nothing is
  cached.
\<close>

lemma bad_usage_gives_error_message:
  assumes avail: "mistral_api_available e"
    and miss: "cached_response (env_now_lookup e)
      (cache_key category topic (env_hash e (PStr msg))) (st_cache s) = None"
    and post: "env_post e 0 = PostResponse r" "status_code r = 200" "json r = JsonValue result"
      "message_content result = Inr content" "usage_logged result = Some err"
  shows "fst (generate_chat_response R e (PStr msg) category topic s) =
     Inr [(ascii ''response'',
           PStr (ascii ''An error occurred while generating a response. Please try again later.''))] \<and>
     st_cache (snd (generate_chat_response R e (PStr msg) category topic s)) = st_cache s"
proof -
  obtain prompt where prompt:
    "build_system_prompt R category topic (is_short_query_of R msg) = Inr prompt"
    using build_system_prompt_total by blast
  let ?ca = "analyze_content R msg prompt"
  have "lr_exit (retry_loop R (env_post e) (select_params (is_short_query_of R msg) ?ca)
      (ca_complexity ?ca) 0 None [] 0) = Raised err"
    by (rule retry_loop_bad_usage [where post = "env_post e" and r = r, OF post
          max_retries_positive])
  then have "\<exists>s1. generate_mistral_response R (env_post e) prompt msg (is_short_query_of R msg) s
      = (Inl err, s1) \<and> st_cache s1 = st_cache s"
    by (simp add: generate_mistral_response_def Let_def)
  then show ?thesis
    using avail miss prompt
    by (auto simp: generate_chat_response_def py_hash_str generate_fresh_response_def)
qed

lemma cached_response_update:
  "cached_response now key (AList.update key \<lparr>response = v, expiry = t\<rparr> cache) =
     (if now < t then Some v else None)"
  by (simp add: cached_response_def update_conv')

lemma generate_chat_response_stores:
  assumes miss: "cached_response (env_now_lookup e)
      (cache_key category topic (env_hash e (PStr msg))) (st_cache s) = None"
    and avail: "mistral_api_available e"
    and prompt: "build_system_prompt R category topic (is_short_query_of R msg) = Inr system_prompt"
    and answered: "fst (generate_mistral_response R (env_post e) system_prompt msg
      (is_short_query_of R msg) s) = Inr d"
  shows "fst (generate_chat_response R e (PStr msg) category topic s) = Inr d \<and>
     st_cache (snd (generate_chat_response R e (PStr msg) category topic s)) =
       AList.update (cache_key category topic (env_hash e (PStr msg)))
         \<lparr>response = dict_get d (ascii ''response'') PNone,
          expiry = env_now_store e + timedelta_seconds CACHE_TTL\<rparr> (st_cache s)"
proof -
  obtain s1 where call: "generate_mistral_response R (env_post e) system_prompt msg
      (is_short_query_of R msg) s = (Inr d, s1)"
    using answered by (cases "generate_mistral_response R (env_post e) system_prompt msg
      (is_short_query_of R msg) s") simp
  have c: "st_cache s1 = st_cache s"
    using generate_mistral_response_cache [of R "env_post e" system_prompt msg
        "is_short_query_of R msg" s] call by simp
  obtain v where v: "map_of d (ascii ''response'') = Some v"
    using generate_mistral_response_has_response [OF answered] by blast
  show ?thesis
    using miss avail prompt call c v
    by (simp add: generate_chat_response_def py_hash_str generate_fresh_response_def
        dict_get_def)
qed

text \<open>
  C5. After a call that missed the cache and stored the answer of the provider call, a
  call with the same category, topic and message (and the same hash function) returns the
  stored response as long as the clock at the lookup is before the stored expiry, the
  time of the write plus \<^verbatim>\<open>CACHE_TTL\<close> seconds; from the expiry on, the cached branch is not
  taken and the call does what a call without a cache entry does.
\<close>

theorem cache_put_then_get:
  assumes same_hash: "env_hash e2 = env_hash e1"
    and miss: "cached_response (env_now_lookup e1)
      (cache_key category topic (env_hash e1 (PStr msg))) (st_cache s0) = None"
    and avail: "mistral_api_available e1"
    and prompt: "build_system_prompt R category topic (is_short_query_of R msg) = Inr system_prompt"
    and answered: "fst (generate_mistral_response R (env_post e1) system_prompt msg
      (is_short_query_of R msg) s0) = Inr d"
    and stored: "s1 = snd (generate_chat_response R e1 (PStr msg) category topic s0)"
  shows "(env_now_lookup e2 < env_now_store e1 + timedelta_seconds CACHE_TTL \<longrightarrow>
       generate_chat_response R e2 (PStr msg) category topic s1 =
         (Inr [(ascii ''response'', dict_get d (ascii ''response'') PNone)], s1)) \<and>
     (env_now_store e1 + timedelta_seconds CACHE_TTL \<le> env_now_lookup e2 \<longrightarrow>
       generate_chat_response R e2 (PStr msg) category topic s1 =
         generate_fresh_response R e2 (PStr msg)
           (cache_key category topic (env_hash e2 (PStr msg))) category topic s1)"
proof -
  from generate_chat_response_stores [OF miss avail prompt answered] stored
  have "st_cache s1 = AList.update (cache_key category topic (env_hash e1 (PStr msg)))
         \<lparr>response = dict_get d (ascii ''response'') PNone,
          expiry = env_now_store e1 + timedelta_seconds CACHE_TTL\<rparr> (st_cache s0)"
    by simp
  then show ?thesis
    by (simp add: generate_chat_response_def py_hash_str same_hash cached_response_update)
qed

text \<open>
  The greeting \<^verbatim>\<open>hi\<close> answered at time 2000, looked up at time 3000 and again one hour
  later.
\<close>

theorem cache_put_then_get_witness:
  "env_now_lookup (example_env answering_provider 3000 4000)
     < env_now_store (example_env answering_provider 1000 2000) + timedelta_seconds CACHE_TTL \<and>
   generate_chat_response plain_runtime (example_env answering_provider 3000 4000)
     (PStr (ascii ''hi'')) (ascii ''vedas'') (ascii ''rigveda-general'')
     (snd (generate_chat_response plain_runtime (example_env answering_provider 1000 2000)
        (PStr (ascii ''hi'')) (ascii ''vedas'') (ascii ''rigveda-general'') initial_state))
   = (Inr [(ascii ''response'', PStr (ascii ''Om''))],
      snd (generate_chat_response plain_runtime (example_env answering_provider 1000 2000)
        (PStr (ascii ''hi'')) (ascii ''vedas'') (ascii ''rigveda-general'') initial_state)) \<and>
   env_now_store (example_env answering_provider 1000 2000) + timedelta_seconds CACHE_TTL
     \<le> env_now_lookup (example_env answering_provider 3600002000 3600003000) \<and>
   generate_chat_response plain_runtime (example_env answering_provider 3600002000 3600003000)
     (PStr (ascii ''hi'')) (ascii ''vedas'') (ascii ''rigveda-general'')
     (snd (generate_chat_response plain_runtime (example_env answering_provider 1000 2000)
        (PStr (ascii ''hi'')) (ascii ''vedas'') (ascii ''rigveda-general'') initial_state))
   = generate_fresh_response plain_runtime
     (example_env answering_provider 3600002000 3600003000) (PStr (ascii ''hi''))
     (cache_key (ascii ''vedas'') (ascii ''rigveda-general'') 42)
     (ascii ''vedas'') (ascii ''rigveda-general'')
     (snd (generate_chat_response plain_runtime (example_env answering_provider 1000 2000)
        (PStr (ascii ''hi'')) (ascii ''vedas'') (ascii ''rigveda-general'') initial_state))"
proof -
  let ?e1 = "example_env answering_provider 1000 2000"
  let ?R = plain_runtime
  let ?m = "ascii ''hi''"
  obtain prompt where prompt:
    "build_system_prompt ?R (ascii ''vedas'') (ascii ''rigveda-general'')
       (is_short_query_of ?R ?m) = Inr prompt"
    using build_system_prompt_total by blast
  let ?d = "success_response (PStr (ascii ''Om''))
      (select_params (is_short_query_of ?R ?m) (analyze_content ?R ?m prompt))
      (ca_complexity (analyze_content ?R ?m prompt)) (PDict [])"
  have miss: "cached_response (env_now_lookup ?e1)
      (cache_key (ascii ''vedas'') (ascii ''rigveda-general'') (env_hash ?e1 (PStr ?m)))
      (st_cache initial_state) = None"
    by (simp add: cached_response_def initial_state_def)
  have avail: "mistral_api_available ?e1" by (simp add: example_env_def)
  let ?body = "PDict [(ascii ''choices'',
         PList [PDict [(ascii ''message'',
                        PDict [(ascii ''role'', PStr (ascii ''assistant'')),
                               (ascii ''content'', PStr (ascii ''Om''))])]])]"
  have content: "message_content ?body = Inr (PStr (ascii ''Om''))"
    by (simp add: message_content_def subscript_key_def subscript_zero_def ascii_def)
  have usage: "usage_logged ?body = None"
    by (simp add: usage_logged_def ascii_def)
  have tu: "token_usage ?body = PDict []"
    by (simp add: token_usage_def dict_get_def ascii_def)
  have answered: "fst (generate_mistral_response ?R (env_post ?e1) prompt ?m
      (is_short_query_of ?R ?m) initial_state) = Inr ?d"
    using generate_mistral_response_answered [of answering_provider _ ?body "PStr (ascii ''Om'')"
        ?R prompt ?m "is_short_query_of ?R ?m" initial_state, OF _ _ _ content usage]
    by (simp add: answering_provider_def example_env_def tu)
  have d: "dict_get ?d (ascii ''response'') PNone = PStr (ascii ''Om'')"
    by (simp add: success_response_def dict_get_def)
  show ?thesis
    using cache_put_then_get [where ?e1.0 = ?e1
        and ?e2.0 = "example_env answering_provider 3000 4000",
        OF _ miss avail prompt answered refl]
      cache_put_then_get [where ?e1.0 = ?e1
        and ?e2.0 = "example_env answering_provider 3600002000 3600003000",
        OF _ miss avail prompt answered refl]
    unfolding d
    by (simp add: example_env_def timedelta_seconds_def CACHE_TTL_def)
qed

text \<open>
  The cache after a call is the cache before it, or that cache with one entry written
  under the call's own key; no other key changes and nothing is removed.
\<close>

lemma generate_chat_response_cache_frame:
  "st_cache (snd (generate_chat_response R e message category topic s)) = st_cache s \<or>
   (\<exists>h entry. py_hash (env_hash e) message = Inr h \<and>
      st_cache (snd (generate_chat_response R e message category topic s)) =
        AList.update (cache_key category topic h) entry (st_cache s))"
proof (cases message)
  case (PStr msg)
  obtain prompt where prompt:
    "build_system_prompt R category topic (is_short_query_of R msg) = Inr prompt"
    using build_system_prompt_total by blast
  obtain res s1 where call:
    "generate_mistral_response R (env_post e) prompt msg (is_short_query_of R msg) s =
     (res, s1)"
    by (cases "generate_mistral_response R (env_post e) prompt msg
         (is_short_query_of R msg) s")
  have c: "st_cache s1 = st_cache s"
    using generate_mistral_response_cache [of R "env_post e" prompt msg
        "is_short_query_of R msg" s] call by simp
  show ?thesis
    using PStr prompt call c
    by (auto simp: generate_chat_response_def py_hash_str generate_fresh_response_def Let_def
        split: option.splits sum.splits)
qed (auto simp: generate_chat_response_def py_hash_def generate_fresh_response_def Let_def
      split: option.splits)

lemma other_keys_untouched:
  assumes "\<forall>h. py_hash (env_hash e) message = Inr h \<longrightarrow> key \<noteq> cache_key category topic h"
  shows "map_of (st_cache (snd (generate_chat_response R e message category topic s))) key =
         map_of (st_cache s) key"
  using generate_chat_response_cache_frame [of R e message category topic s] assms
  by (auto simp: update_conv')

text \<open>
  C9. The write is not limited to successful provider calls: when the provider rejects
  the request with HTTP 401, the fallback text of the failure dictionary (the one with
  \<^verbatim>\<open>'error': 'api_error'\<close>) is stored under the call's key for \<^verbatim>\<open>CACHE_TTL\<close> seconds.
\<close>

theorem failed_call_is_cached:
  "map_of (projr (fst (generate_chat_response R (example_env unauthorized_provider 1000 2000)
      (PStr (ascii ''Who is Krishna in the Mahabharata?'')) (ascii ''characters'')
      (ascii ''krishna'') initial_state)))
     (ascii ''error'') = Some (PStr (ascii ''api_error'')) \<and>
   st_cache (snd (generate_chat_response R (example_env unauthorized_provider 1000 2000)
      (PStr (ascii ''Who is Krishna in the Mahabharata?'')) (ascii ''characters'')
      (ascii ''krishna'') initial_state)) =
     [(ascii ''characters:krishna:42'',
       \<lparr>response = PStr (fallback_response R
           (projr (build_system_prompt R (ascii ''characters'') (ascii ''krishna'') False)) False),
        expiry = 3600002000\<rparr>)]"
proof -
  let ?e = "example_env unauthorized_provider 1000 2000"
  let ?m = "ascii ''Who is Krishna in the Mahabharata?''"
  have short: "is_short_query_of R ?m = False"
    by (simp add: is_short_query_of_def py_strip_def py_split_def is_space_def
        endswith_code_def simple_greetings_def string_eval)
  obtain prompt where prompt:
    "build_system_prompt R (ascii ''characters'') (ascii ''krishna'') False = Inr prompt"
    using build_system_prompt_total by blast
  have key: "cache_key (ascii ''characters'') (ascii ''krishna'') (env_hash ?e (PStr ?m)) =
      ascii ''characters:krishna:42''"
    by (simp add: cache_key_def example_env_def str_int_def str_nat.simps [of 42]
        str_nat.simps [of 4] ascii_def)
  have call: "generate_mistral_response R (env_post ?e) prompt ?m False initial_state =
     (Inr (failure_response R prompt False (Some (ascii ''api_error''))
            (select_params False (analyze_content R ?m prompt))
            (ca_complexity (analyze_content R ?m prompt))),
      initial_state\<lparr>st_sleeps := st_sleeps initial_state, st_posts := st_posts initial_state + 1,
        st_analytics := track_error (ca_category (analyze_content R ?m prompt))
          (ca_topic (analyze_content R ?m prompt)) (Some (ascii ''api_error''))
          (ascii ''Failed after 0 attempts'') (st_analytics initial_state)\<rparr>)"
    by (rule generate_mistral_response_not_retried [of "env_post ?e"])
       (simp add: example_env_def unauthorized_provider_def, simp_all)
  have miss: "cached_response (env_now_lookup ?e)
      (cache_key (ascii ''characters'') (ascii ''krishna'') (env_hash ?e (PStr ?m)))
      (st_cache initial_state) = None"
    by (simp add: cached_response_def initial_state_def)
  have avail: "mistral_api_available ?e" by (simp add: example_env_def)
  have prompt': "build_system_prompt R (ascii ''characters'') (ascii ''krishna'')
      (is_short_query_of R ?m) = Inr prompt"
    using prompt short by simp
  have answered: "fst (generate_mistral_response R (env_post ?e) prompt ?m
      (is_short_query_of R ?m) initial_state) =
        Inr (failure_response R prompt False (Some (ascii ''api_error''))
            (select_params False (analyze_content R ?m prompt))
            (ca_complexity (analyze_content R ?m prompt)))"
    using call short by simp
  from generate_chat_response_stores [OF miss avail prompt' answered]
  show ?thesis
    unfolding key prompt
    by (simp add: example_env_def failure_response_def error_value_def initial_state_def
        timedelta_seconds_def CACHE_TTL_def dict_get_def ascii_eq_iff)
qed


end
